theory Spec2Isabelle
  imports Complex_Main "HOL-Library.AList"
begin

section \<open>JavaScript values\<close>

text \<open>
  A JavaScript number is modelled as an exact rational or one of the three
  non-finite values. Arithmetic on finite values is exact: rounding and the
  sign of zero are not modelled.
\<close>

datatype jsnum = Finite rat | PInf | NInf | NaN

fun js_add :: "jsnum \<Rightarrow> jsnum \<Rightarrow> jsnum" where
  "js_add (Finite a) (Finite b) = Finite (a + b)"
| "js_add NaN _ = NaN"
| "js_add _ NaN = NaN"
| "js_add PInf NInf = NaN"
| "js_add NInf PInf = NaN"
| "js_add PInf _ = PInf"
| "js_add _ PInf = PInf"
| "js_add NInf _ = NInf"
| "js_add _ NInf = NInf"

fun js_neg :: "jsnum \<Rightarrow> jsnum" where
  "js_neg (Finite a) = Finite (- a)"
| "js_neg PInf = NInf"
| "js_neg NInf = PInf"
| "js_neg NaN = NaN"

definition js_sub :: "jsnum \<Rightarrow> jsnum \<Rightarrow> jsnum" where
  "js_sub a b = js_add a (js_neg b)"

fun js_sign :: "jsnum \<Rightarrow> int" where
  "js_sign (Finite a) = (if a < 0 then - 1 else if a = 0 then 0 else 1)"
| "js_sign PInf = 1"
| "js_sign NInf = - 1"
| "js_sign NaN = 0"

definition signed_inf :: "int \<Rightarrow> jsnum" where
  "signed_inf s = (if s < 0 then NInf else PInf)"

fun js_mul :: "jsnum \<Rightarrow> jsnum \<Rightarrow> jsnum" where
  "js_mul (Finite a) (Finite b) = Finite (a * b)"
| "js_mul NaN _ = NaN"
| "js_mul _ NaN = NaN"
| "js_mul a b =
     (if js_sign a = 0 \<or> js_sign b = 0 then NaN else signed_inf (js_sign a * js_sign b))"

fun js_div :: "jsnum \<Rightarrow> jsnum \<Rightarrow> jsnum" where
  "js_div (Finite a) (Finite b) =
     (if b = 0 then (if a = 0 then NaN else signed_inf (js_sign (Finite a)))
      else Finite (a / b))"
| "js_div NaN _ = NaN"
| "js_div _ NaN = NaN"
| "js_div (Finite a) _ = Finite 0"
| "js_div a (Finite b) = signed_inf (js_sign a * (if b < 0 then - 1 else 1))"
| "js_div _ _ = NaN"

fun js_gt :: "jsnum \<Rightarrow> jsnum \<Rightarrow> bool" where
  "js_gt (Finite a) (Finite b) = (a > b)"
| "js_gt NaN _ = False"
| "js_gt _ NaN = False"
| "js_gt PInf PInf = False"
| "js_gt PInf _ = True"
| "js_gt _ PInf = False"
| "js_gt NInf _ = False"
| "js_gt _ NInf = True"

definition js_lt :: "jsnum \<Rightarrow> jsnum \<Rightarrow> bool" where
  "js_lt a b = js_gt b a"

fun js_isNaN :: "jsnum \<Rightarrow> bool" where
  "js_isNaN NaN = True"
| "js_isNaN _ = False"

text \<open>Cell values of a row: the scalars and arrays a parsed sheet can hold.\<close>

datatype jsval =
    JUndefined
  | JNull
  | JBool bool
  | JNumber jsnum
  | JString string
  | JArray "jsval list"

text \<open>
  A row object: its own properties in insertion order, each key once.
  Reading a missing property gives \<open>undefined\<close>.
\<close>

type_synonym row = "(string \<times> jsval) list"

definition get_prop :: "row \<Rightarrow> string \<Rightarrow> jsval" where
  "get_prop r k = (case map_of r k of None \<Rightarrow> JUndefined | Some v \<Rightarrow> v)"

definition object_keys :: "row \<Rightarrow> string list" where
  "object_keys r = map fst r"

section \<open>Applying correction suggestions (aiEngine.ts)\<close>

text \<open>
  \<^verbatim>\<open>AICorrectionSuggestion\<close>; its field \<^verbatim>\<open>type\<close> is \<open>stype\<close> here. The row
  index is a natural number, as the rules produce it.
\<close>

datatype suggestion_type =
  missing_value | format_error | range_error | reference_error | duplicate_error

record suggestion =
  stype :: suggestion_type
  rowIndex :: nat
  column :: string
  currentValue :: jsval
  suggestedValue :: jsval
  confidence :: jsnum
  reason :: string
  autoApply :: bool

text \<open>
  An array of rows; \<open>None\<close> is a slot that holds no row (\<open>undefined\<close>).
  Reading past the end gives \<open>undefined\<close>; writing past the end extends the
  array, leaving the slots in between empty.
\<close>

type_synonym dataset = "row option list"

definition array_get :: "'a option list \<Rightarrow> nat \<Rightarrow> 'a option" where
  "array_get xs i = (if i < length xs then xs ! i else None)"

definition array_set :: "'a option list \<Rightarrow> nat \<Rightarrow> 'a \<Rightarrow> 'a option list" where
  "array_set xs i r =
     (if i < length xs then xs[i := Some r]
      else xs @ replicate (i - length xs) None @ [Some r])"

text \<open>\<^verbatim>\<open>{ ...old, [c]: v }\<close>: spreading \<open>undefined\<close> copies nothing.\<close>

definition spread_with :: "row option \<Rightarrow> string \<Rightarrow> jsval \<Rightarrow> row" where
  "spread_with old c v =
     (case old of None \<Rightarrow> [(c, v)] | Some r \<Rightarrow> AList.update c v r)"

definition should_apply :: "suggestion \<Rightarrow> bool" where
  "should_apply s = (autoApply s \<or> js_gt (confidence s) (Finite (4 / 5)))"

definition merge_suggestion :: "suggestion \<Rightarrow> dataset \<Rightarrow> dataset" where
  "merge_suggestion s newData =
     array_set newData (rowIndex s)
       (spread_with (array_get newData (rowIndex s)) (column s) (suggestedValue s))"

definition applyAISuggestions :: "dataset \<Rightarrow> suggestion list \<Rightarrow> dataset" where
  "applyAISuggestions data suggestions =
     fold (\<lambda>s newData. if should_apply s then merge_suggestion s newData else newData)
       suggestions data"


subsection \<open>The same function over an explicit store\<close>

text \<open>
  Arrays and row objects live in a store, addressed by their position; an
  allocation appends to it. An array holds references to row objects
  (\<open>None\<close> for \<open>undefined\<close>). The copy \<^verbatim>\<open>[...data]\<close> allocates a new array
  with the same references, every merge allocates a new row object and
  stores its reference into the new array.
\<close>

type_synonym addr = nat

datatype heap_obj = ArrayObj "addr option list" | RowObj row

type_synonym heap = "heap_obj list"

definition alloc :: "heap \<Rightarrow> heap_obj \<Rightarrow> heap \<times> addr" where
  "alloc h ob = (h @ [ob], length h)"

definition read_array :: "heap \<Rightarrow> addr \<Rightarrow> addr option list" where
  "read_array h a =
     (if a < length h then (case h ! a of ArrayObj els \<Rightarrow> els | RowObj _ \<Rightarrow> []) else [])"

definition read_row :: "heap \<Rightarrow> addr option \<Rightarrow> row option" where
  "read_row h ref =
     (case ref of
        None \<Rightarrow> None
      | Some a \<Rightarrow>
          (if a < length h then (case h ! a of RowObj r \<Rightarrow> Some r | ArrayObj _ \<Rightarrow> None)
           else None))"

definition merge_suggestion_h :: "addr \<Rightarrow> suggestion \<Rightarrow> heap \<Rightarrow> heap" where
  "merge_suggestion_h newData s h =
     (let els = read_array h newData;
          old = read_row h (array_get els (rowIndex s));
          (h1, fresh) = alloc h (RowObj (spread_with old (column s) (suggestedValue s)))
      in h1[newData := ArrayObj (array_set els (rowIndex s) fresh)])"

definition applyAISuggestions_h :: "heap \<Rightarrow> addr \<Rightarrow> suggestion list \<Rightarrow> heap \<times> addr" where
  "applyAISuggestions_h h data suggestions =
     (let (h1, newData) = alloc h (ArrayObj (read_array h data))
      in (fold (\<lambda>s h'. if should_apply s then merge_suggestion_h newData s h' else h')
            suggestions h1, newData))"

text \<open>The dataset an array of the store denotes.\<close>

definition read_dataset :: "heap \<Rightarrow> addr \<Rightarrow> dataset" where
  "read_dataset h a = map (read_row h) (read_array h a)"

text \<open>An array of the store all of whose references point into the store.\<close>

definition closed_array :: "heap \<Rightarrow> addr \<Rightarrow> bool" where
  "closed_array h a =
     (a < length h \<and>
      (case h ! a of
         ArrayObj els \<Rightarrow> list_all (\<lambda>r. case r of None \<Rightarrow> True | Some b \<Rightarrow> b < length h) els
       | RowObj _ \<Rightarrow> False))"

text \<open>Sample data used to instantiate the theorems below.\<close>

definition sample_rows :: dataset where
  "sample_rows =
     [Some [(''name'', JString ''Ann''), (''email'', JString ''ann@gmial.com'')],
      Some [(''name'', JString ''Bob''), (''email'', JString ''bob@example.com'')]]"

definition sample_suggestion :: "jsnum \<Rightarrow> bool \<Rightarrow> suggestion" where
  "sample_suggestion c a =
     \<lparr>stype = format_error, rowIndex = 0, column = ''email'',
      currentValue = JString ''ann@gmial.com'', suggestedValue = JString ''ann@gmail.com'',
      confidence = c, reason = ''Fixed common email format issues'', autoApply = a\<rparr>"

definition sample_heap :: heap where
  "sample_heap =
     [RowObj [(''name'', JString ''Ann''), (''email'', JString ''ann@gmial.com'')],
      RowObj [(''name'', JString ''Bob''), (''email'', JString ''bob@example.com'')],
      ArrayObj [Some 0, Some 1]]"

section \<open>AHP weighting (prioritizationEngine.ts)\<close>

text \<open>
  The fields \<^verbatim>\<open>id\<close>, \<^verbatim>\<open>name\<close> and \<^verbatim>\<open>description\<close> of a criterion are \<open>cid\<close>,
  \<open>cname\<close> and \<open>cdescription\<close> here, the \<^verbatim>\<open>value\<close> of a comparison is
  \<open>cvalue\<close>.
\<close>

datatype criterion_category = client | worker | task | constraint

record PrioritizationCriteria =
  cid :: string
  cname :: string
  cdescription :: string
  category :: criterion_category
  weight :: jsnum
  minWeight :: jsnum
  maxWeight :: jsnum
  unit :: "string option"

record PairwiseComparison =
  criterion1 :: string
  criterion2 :: string
  cvalue :: jsnum

text \<open>\<^verbatim>\<open>Array.prototype.findIndex\<close>: the first index that satisfies the test, if any.\<close>

fun findIndex :: "('a \<Rightarrow> bool) \<Rightarrow> 'a list \<Rightarrow> nat option" where
  "findIndex p [] = None"
| "findIndex p (x # xs) =
     (if p x then Some 0 else (case findIndex p xs of None \<Rightarrow> None | Some i \<Rightarrow> Some (Suc i)))"

text \<open>\<^verbatim>\<open>xs.reduce((sum, val) => sum + val, 0)\<close>, the sum from the left.\<close>

definition reduce_sum :: "jsnum list \<Rightarrow> jsnum" where
  "reduce_sum xs = fold (\<lambda>val sum. js_add sum val) xs (Finite 0)"

text \<open>Reading a numeric array: past the end the value is \<open>undefined\<close>, NaN in arithmetic.\<close>

definition num_at :: "jsnum list \<Rightarrow> nat \<Rightarrow> jsnum" where
  "num_at xs i = (if i < length xs then xs ! i else NaN)"

definition set_entry :: "jsnum list list \<Rightarrow> nat \<Rightarrow> nat \<Rightarrow> jsnum \<Rightarrow> jsnum list list" where
  "set_entry m i j v = m[i := (m ! i)[j := v]]"

text \<open>The comparison of value 1 for every pair of criteria, the earlier one first.\<close>

definition generatePairwiseComparisons :: "PrioritizationCriteria list \<Rightarrow> PairwiseComparison list" where
  "generatePairwiseComparisons criteria =
     concat (map (\<lambda>i. map (\<lambda>j. \<lparr>criterion1 = cid (criteria ! i), criterion2 = cid (criteria ! j),
                                  cvalue = Finite 1\<rparr>)
                         [Suc i ..< length criteria])
                 [0 ..< length criteria])"

text \<open>
  One comparison written into the matrix, with its reciprocal at the mirrored
  place; a comparison that names an unknown criterion is skipped.
\<close>

definition fill_comparison ::
  "PrioritizationCriteria list \<Rightarrow> PairwiseComparison \<Rightarrow> jsnum list list \<Rightarrow> jsnum list list" where
  "fill_comparison criteria cmp m =
     (case (findIndex (\<lambda>c. cid c = criterion1 cmp) criteria,
            findIndex (\<lambda>c. cid c = criterion2 cmp) criteria) of
        (Some i, Some j) \<Rightarrow>
          set_entry (set_entry m i j (cvalue cmp)) j i (js_div (Finite 1) (cvalue cmp))
      | _ \<Rightarrow> m)"

definition zero_matrix :: "nat \<Rightarrow> jsnum list list" where
  "zero_matrix n = replicate n (replicate n (Finite 0))"

definition calculateWeightsFromPairwise ::
  "PairwiseComparison list \<Rightarrow> PrioritizationCriteria list \<Rightarrow> jsnum list" where
  "calculateWeightsFromPairwise comparisons criteria =
     (let n = length criteria;
          m0 = fold (\<lambda>i m. set_entry m i i (Finite 1)) [0 ..< n] (zero_matrix n);
          matrix = fold (fill_comparison criteria) comparisons m0;
          rowSums = map reduce_sum matrix;
          totalSum = reduce_sum rowSums
      in map (\<lambda>sum. js_div sum totalSum) rowSums)"

definition randomIndex :: "jsnum list" where
  "randomIndex = map Finite [0, 0, 58 / 100, 9 / 10, 112 / 100, 124 / 100, 132 / 100,
                             141 / 100, 145 / 100, 149 / 100]"

definition calculateConsistencyRatio ::
  "PairwiseComparison list \<Rightarrow> PrioritizationCriteria list \<Rightarrow> jsnum" where
  "calculateConsistencyRatio comparisons criteria =
     (let n = length criteria;
          weights = calculateWeightsFromPairwise comparisons criteria;
          matrix = fold (fill_comparison criteria) comparisons (zero_matrix n);
          weightedSums =
            map (\<lambda>row. fold (\<lambda>(val, j) sum. js_add sum (js_mul val (num_at weights j)))
                           (zip row [0 ..< length row]) (Finite 0)) matrix;
          lambdaMax =
            js_div (fold (\<lambda>(val, i) sum. js_add sum (js_div val (num_at weights i)))
                      (zip weightedSums [0 ..< length weightedSums]) (Finite 0))
                   (Finite (of_nat n));
          consistencyIndex =
            js_div (js_sub lambdaMax (Finite (of_nat n))) (js_sub (Finite (of_nat n)) (Finite 1))
      in js_div consistencyIndex (num_at randomIndex (min n (length randomIndex - 1))))"


text \<open>A criterion with a given id, used to instantiate the theorems.\<close>

definition sample_criterion :: "string \<Rightarrow> PrioritizationCriteria" where
  "sample_criterion i =
     \<lparr>cid = i, cname = i, cdescription = [], category = client, weight = Finite (1 / 2),
      minWeight = Finite 0, maxWeight = Finite 1, unit = None\<rparr>"

section \<open>Strings and conversions\<close>

text \<open>
  Strings are lists of 8-bit characters; case conversion and the character
  classes act on ASCII, which is all that the patterns of the program mention.
\<close>

definition is_space :: "char \<Rightarrow> bool" where
  "is_space c = (c \<in> set [CHR '' '', CHR 0x09, CHR 0x0A, CHR 0x0B, CHR 0x0C, CHR 0x0D])"

definition digit_chars :: string where
  "digit_chars = ''0123456789''"

definition lower_chars :: string where
  "lower_chars = ''abcdefghijklmnopqrstuvwxyz''"

definition upper_chars :: string where
  "upper_chars = ''ABCDEFGHIJKLMNOPQRSTUVWXYZ''"

definition is_digit :: "char \<Rightarrow> bool" where
  "is_digit c = (c \<in> set digit_chars)"

definition is_upper :: "char \<Rightarrow> bool" where
  "is_upper c = (c \<in> set upper_chars)"

definition is_lower :: "char \<Rightarrow> bool" where
  "is_lower c = (c \<in> set lower_chars)"

definition is_alpha :: "char \<Rightarrow> bool" where
  "is_alpha c = (is_upper c \<or> is_lower c)"

definition is_word :: "char \<Rightarrow> bool" where
  "is_word c = (is_alpha c \<or> is_digit c \<or> c = CHR ''_'')"

definition lower_char :: "char \<Rightarrow> char" where
  "lower_char c =
     (if is_upper c
      then (case map_of (zip upper_chars lower_chars) c of None \<Rightarrow> c | Some d \<Rightarrow> d)
      else c)"

definition upper_char :: "char \<Rightarrow> char" where
  "upper_char c =
     (if is_lower c
      then (case map_of (zip lower_chars upper_chars) c of None \<Rightarrow> c | Some d \<Rightarrow> d)
      else c)"

definition toLowerCase :: "string \<Rightarrow> string" where
  "toLowerCase s = map lower_char s"

definition trimStart :: "string \<Rightarrow> string" where
  "trimStart s = dropWhile is_space s"

definition trim :: "string \<Rightarrow> string" where
  "trim s = rev (dropWhile is_space (rev (dropWhile is_space s)))"

text \<open>\<^verbatim>\<open>s.includes(t)\<close>: \<open>t\<close> occurs in \<open>s\<close> as a contiguous substring.\<close>

fun starts_with :: "string \<Rightarrow> string \<Rightarrow> bool" where
  "starts_with [] s = True"
| "starts_with (c # cs) [] = False"
| "starts_with (c # cs) (d # ds) = (c = d \<and> starts_with cs ds)"

fun str_includes :: "string \<Rightarrow> string \<Rightarrow> bool" where
  "str_includes [] t = (t = [])"
| "str_includes (c # cs) t = (starts_with t (c # cs) \<or> str_includes cs t)"

text \<open>\<^verbatim>\<open>s.split(c)\<close> for a separator of one character.\<close>

fun split_char :: "char \<Rightarrow> string \<Rightarrow> string list" where
  "split_char sep [] = [[]]"
| "split_char sep (c # cs) =
     (if c = sep then [] # split_char sep cs
      else (case split_char sep cs of
              [] \<Rightarrow> [[c]]
            | p # ps \<Rightarrow> (c # p) # ps))"

text \<open>\<^verbatim>\<open>xs.join(sep)\<close> on strings.\<close>

fun join :: "string \<Rightarrow> string list \<Rightarrow> string" where
  "join sep [] = []"
| "join sep [x] = x"
| "join sep (x # y # ys) = x @ sep @ join sep (y # ys)"

text \<open>
  \<^verbatim>\<open>parseInt(s)\<close> without a radix: leading white space is skipped, a sign is
  read, a prefix \<^verbatim>\<open>0x\<close> selects base 16, and the longest run of digits of the
  base is the value; no digit gives NaN.
\<close>

definition digit_val :: "char \<Rightarrow> nat option" where
  "digit_val c =
     map_of (zip ''0123456789abcdef'' [0 ..< 16] @ zip ''ABCDEF'' [10 ..< 16]) c"

fun read_digits :: "nat \<Rightarrow> string \<Rightarrow> nat option \<Rightarrow> nat option" where
  "read_digits radix [] acc = acc"
| "read_digits radix (c # cs) acc =
     (case digit_val c of
        None \<Rightarrow> acc
      | Some d \<Rightarrow>
          (if d < radix
           then read_digits radix cs (Some ((case acc of None \<Rightarrow> 0 | Some a \<Rightarrow> a) * radix + d))
           else acc))"

definition parseInt_int :: "string \<Rightarrow> int option" where
  "parseInt_int s =
     (let t = trimStart s;
          neg = starts_with ''-'' t;
          u = (if starts_with ''-'' t \<or> starts_with ''+'' t then tl t else t);
          hex = (starts_with ''0x'' u \<or> starts_with ''0X'' u);
          digits = (if hex then read_digits 16 (drop 2 u) None else read_digits 10 u None)
      in (case digits of
            None \<Rightarrow> None
          | Some n \<Rightarrow> Some (if neg then - int n else int n)))"

definition parseInt :: "string \<Rightarrow> jsnum" where
  "parseInt s = (case parseInt_int s of None \<Rightarrow> NaN | Some k \<Rightarrow> Finite (of_int k))"

text \<open>Truthiness of a value, as tested by \<^verbatim>\<open>if (v)\<close> and \<^verbatim>\<open>!v\<close>.\<close>

fun truthy :: "jsval \<Rightarrow> bool" where
  "truthy JUndefined = False"
| "truthy JNull = False"
| "truthy (JBool b) = b"
| "truthy (JNumber n) = (n \<noteq> NaN \<and> n \<noteq> Finite 0)"
| "truthy (JString s) = (s \<noteq> [])"
| "truthy (JArray xs) = True"

text \<open>
  Strict equality \<^verbatim>\<open>===\<close>. NaN differs from itself. Arrays are compared by
  identity in JavaScript; values here carry no identity and two arrays count
  as two objects, so this equality is that of the program on scalar cells.
\<close>

fun strict_eq :: "jsval \<Rightarrow> jsval \<Rightarrow> bool" where
  "strict_eq (JNumber a) (JNumber b) = (a = b \<and> a \<noteq> NaN)"
| "strict_eq (JArray xs) (JArray ys) = False"
| "strict_eq a b = (a = b)"

text \<open>
  Rendering a value in a template string. Integers are rendered exactly; a
  fraction is rendered by its decimal digits, cut after 16 places (JavaScript
  prints the shortest digits that round-trip, which is the same for short
  terminating decimals).
\<close>

fun nat_digits :: "nat \<Rightarrow> nat \<Rightarrow> string" where
  "nat_digits 0 n = []"
| "nat_digits (Suc fuel) n =
     (if n < 10 then [digit_chars ! n]
      else nat_digits fuel (n div 10) @ [digit_chars ! (n mod 10)])"

definition show_nat :: "nat \<Rightarrow> string" where
  "show_nat n = nat_digits (Suc n) n"

fun frac_digits :: "nat \<Rightarrow> rat \<Rightarrow> string" where
  "frac_digits 0 q = []"
| "frac_digits (Suc k) q =
     (if q = 0 then []
      else digit_chars ! nat \<lfloor>q * 10\<rfloor> # frac_digits k (q * 10 - of_int \<lfloor>q * 10\<rfloor>))"

definition show_rat :: "rat \<Rightarrow> string" where
  "show_rat q =
     (let a = \<bar>q\<bar>; w = \<lfloor>a\<rfloor>; f = a - of_int w
      in (if q < 0 then ''-'' else []) @ show_nat (nat w)
         @ (if f = 0 then [] else ''.'' @ frac_digits 16 f))"

fun show_num :: "jsnum \<Rightarrow> string" where
  "show_num (Finite q) = show_rat q"
| "show_num PInf = ''Infinity''"
| "show_num NInf = ''-Infinity''"
| "show_num NaN = ''NaN''"

fun to_string :: "jsval \<Rightarrow> string" where
  "to_string JUndefined = ''undefined''"
| "to_string JNull = ''null''"
| "to_string (JBool b) = (if b then ''true'' else ''false'')"
| "to_string (JNumber n) = show_num n"
| "to_string (JString s) = s"
| "to_string (JArray xs) =
     join '','' (map (\<lambda>x. if x = JUndefined \<or> x = JNull then [] else to_string x) xs)"

section \<open>The validator (validation.ts)\<close>

text \<open>
  \<^verbatim>\<open>ValidationError\<close>; its fields \<^verbatim>\<open>type\<close>, \<^verbatim>\<open>rowIndex\<close>, \<^verbatim>\<open>column\<close> and
  \<^verbatim>\<open>value\<close> are \<open>etype\<close>, \<open>e_rowIndex\<close>, \<open>e_column\<close> and \<open>e_value\<close> here.
\<close>

datatype error_kind = error | warning | info

datatype severity_level = high | medium | low

record ValidationError =
  etype :: error_kind
  message :: string
  e_rowIndex :: "nat option"
  e_column :: "string option"
  e_value :: "jsval option"
  severity :: severity_level

definition parseCommaSeparated :: "jsval \<Rightarrow> jsval list" where
  "parseCommaSeparated v =
     (if \<not> truthy v then []
      else (case v of
              JArray xs \<Rightarrow> xs
            | JString s \<Rightarrow>
                map JString (filter (\<lambda>t. length t > 0) (map trim (split_char CHR '','' s)))
            | _ \<Rightarrow> []))"



text \<open>\<^verbatim>\<open>Array.prototype.find\<close>\<close>

fun find_first :: "('a \<Rightarrow> bool) \<Rightarrow> 'a list \<Rightarrow> 'a option" where
  "find_first p [] = None"
| "find_first p (x # xs) = (if p x then Some x else find_first p xs)"

text \<open>
  The first pattern, in the order given, that some header of the first row
  contains (ignoring case) selects the first such header.
\<close>

fun first_header :: "string list \<Rightarrow> string list \<Rightarrow> string option" where
  "first_header headers [] = None"
| "first_header headers (pattern # patterns) =
     (case find_first (\<lambda>header. str_includes (toLowerCase header) (toLowerCase pattern)) headers of
        Some found \<Rightarrow> (if found \<noteq> [] then Some found else first_header headers patterns)
      | None \<Rightarrow> first_header headers patterns)"

definition findColumnByPattern :: "row list \<Rightarrow> string list \<Rightarrow> string option" where
  "findColumnByPattern data patterns =
     (case data of
        [] \<Rightarrow> None
      | first # _ \<Rightarrow> first_header (object_keys first) patterns)"

text \<open>\<^verbatim>\<open>ids.indexOf(id)\<close>: the first position holding a strictly equal value.\<close>

definition indexOf :: "jsval list \<Rightarrow> jsval \<Rightarrow> nat option" where
  "indexOf xs v = findIndex (\<lambda>x. strict_eq x v) xs"

definition with_index :: "'a list \<Rightarrow> ('a \<times> nat) list" where
  "with_index xs = zip xs [0 ..< length xs]"

text \<open>
  The duplicate-identifier rule. The three entity kinds carry the same code
  with their own column patterns and message label.
\<close>

definition duplicate_ids :: "string list \<Rightarrow> string \<Rightarrow> row list \<Rightarrow> ValidationError list" where
  "duplicate_ids patterns label data =
     (case findColumnByPattern data patterns of
        None \<Rightarrow> []
      | Some idColumn \<Rightarrow>
          (let ids = filter (\<lambda>i. i \<noteq> JUndefined \<and> i \<noteq> JString [])
                       (map (\<lambda>row. get_prop row idColumn) data);
               duplicates = map fst (filter (\<lambda>(i, index). indexOf ids i \<noteq> Some index)
                                       (with_index ids))
           in concat (map (\<lambda>duplicateId.
                 map (\<lambda>(row, index).
                        \<lparr>etype = error,
                         message = label @ to_string duplicateId,
                         e_rowIndex = Some index,
                         e_column = Some idColumn,
                         e_value = Some duplicateId,
                         severity = high\<rparr>)
                     (filter (\<lambda>(row, index). strict_eq (get_prop row idColumn) duplicateId)
                        (with_index data)))
               duplicates)))"

definition duplicate_client_ids :: "row list \<Rightarrow> ValidationError list" where
  "duplicate_client_ids data =
     duplicate_ids [''clientid'', ''client_id'', ''id''] ''Duplicate ClientID: '' data"

definition duplicate_worker_ids :: "row list \<Rightarrow> ValidationError list" where
  "duplicate_worker_ids data =
     duplicate_ids [''workerid'', ''worker_id'', ''id''] ''Duplicate WorkerID: '' data"

definition duplicate_task_ids :: "row list \<Rightarrow> ValidationError list" where
  "duplicate_task_ids data =
     duplicate_ids [''taskid'', ''task_id'', ''id''] ''Duplicate TaskID: '' data"

text \<open>\<^verbatim>\<open>getRowErrors\<close>: the errors attached to one row.\<close>

definition getRowErrors :: "ValidationError list \<Rightarrow> nat \<Rightarrow> ValidationError list" where
  "getRowErrors errors i = filter (\<lambda>e. e_rowIndex e = Some i) errors"

text \<open>Rows that hold nothing but a client id, used to instantiate the rule.\<close>

definition id_rows :: "string list \<Rightarrow> row list" where
  "id_rows ids = map (\<lambda>i. [(''clientid'', JString i)]) ids"

section \<open>Regular expressions\<close>

text \<open>
  The patterns of the program are matched the way JavaScript matches them:
  by backtracking, the first alternative first, greedy quantifiers taking as
  much as they can and lazy ones as little, and the leftmost start position
  winning. A pattern is a term of \<open>regex\<close>; the matcher is written in
  continuation style, \<open>k\<close> being the rest of the pattern.
\<close>

datatype citem = One char | Among string | ClsSpace | ClsDigit | ClsWord

datatype regex =
    Lit string
  | Dot
  | Cls "citem list"
  | NCls "citem list"
  | Bol
  | Eol
  | Seq regex regex
  | Alt regex regex
  | Opt regex
  | Star regex
  | Plus regex
  | LazyPlus regex
  | Grp nat regex

text \<open>
  A position in the subject: the offset, the text from there on, and the
  groups so far, each with the offsets where it starts and ends.
\<close>

type_synonym spans = "(nat \<times> nat \<times> nat) list"

type_synonym conf = "nat \<times> string \<times> spans"

fun citem_matches :: "citem \<Rightarrow> char \<Rightarrow> bool" where
  "citem_matches (One d) c = (c = d)"
| "citem_matches (Among cs) c = (c \<in> set cs)"
| "citem_matches ClsSpace c = is_space c"
| "citem_matches ClsDigit c = is_digit c"
| "citem_matches ClsWord c = is_word c"

text \<open>With the flag \<open>i\<close> a character matches when one of its two cases does.\<close>

definition class_matches :: "bool \<Rightarrow> citem list \<Rightarrow> char \<Rightarrow> bool" where
  "class_matches ci items c =
     list_ex (\<lambda>it. citem_matches it c
                   \<or> (ci \<and> (citem_matches it (lower_char c) \<or> citem_matches it (upper_char c))))
       items"

definition is_line_terminator :: "char \<Rightarrow> bool" where
  "is_line_terminator c = (c = CHR 0x0A \<or> c = CHR 0x0D)"

definition step_char :: "(char \<Rightarrow> bool) \<Rightarrow> (conf \<Rightarrow> 'r option) \<Rightarrow> conf \<Rightarrow> 'r option" where
  "step_char p k c =
     (case c of (pos, rest, caps) \<Rightarrow>
        (case rest of
           [] \<Rightarrow> None
         | x # xs \<Rightarrow> if p x then k (Suc pos, xs, caps) else None))"

text \<open>
  Iterations of a quantifier after its first. An iteration that consumes
  nothing is rejected, so there are at most as many as characters are left:
  the recursion is on the text that was left when the quantifier began.
\<close>

fun greedy_loop ::
  "((conf \<Rightarrow> 'r option) \<Rightarrow> conf \<Rightarrow> 'r option) \<Rightarrow> (conf \<Rightarrow> 'r option) \<Rightarrow> string \<Rightarrow> conf \<Rightarrow> 'r option"
where
  "greedy_loop f k [] c = k c"
| "greedy_loop f k (x # n) c =
     (case f (\<lambda>c'. if fst c' \<noteq> fst c then greedy_loop f k n c' else None) c of
        Some r \<Rightarrow> Some r
      | None \<Rightarrow> k c)"

fun lazy_loop ::
  "((conf \<Rightarrow> 'r option) \<Rightarrow> conf \<Rightarrow> 'r option) \<Rightarrow> (conf \<Rightarrow> 'r option) \<Rightarrow> string \<Rightarrow> conf \<Rightarrow> 'r option"
where
  "lazy_loop f k [] c = k c"
| "lazy_loop f k (x # n) c =
     (case k c of
        Some r \<Rightarrow> Some r
      | None \<Rightarrow> f (\<lambda>c'. if fst c' \<noteq> fst c then lazy_loop f k n c' else None) c)"

text \<open>
  The matcher proper. With the flag \<open>i\<close> it is run on a pattern and a
  subject that \<open>exec_from\<close> has brought to lower case, so that a literal is
  compared as it stands.
\<close>

primrec rmatch :: "bool \<Rightarrow> regex \<Rightarrow> (conf \<Rightarrow> 'r option) \<Rightarrow> conf \<Rightarrow> 'r option" where
  "rmatch ci (Lit w) =
     (\<lambda>k c. case c of (pos, rest, caps) \<Rightarrow>
        if starts_with w rest then k (pos + length w, drop (length w) rest, caps) else None)"
| "rmatch ci Dot = (\<lambda>k c. step_char (\<lambda>x. \<not> is_line_terminator x) k c)"
| "rmatch ci (Cls items) = (\<lambda>k c. step_char (class_matches ci items) k c)"
| "rmatch ci (NCls items) = (\<lambda>k c. step_char (\<lambda>x. \<not> class_matches ci items x) k c)"
| "rmatch ci Bol = (\<lambda>k c. if fst c = 0 then k c else None)"
| "rmatch ci Eol = (\<lambda>k c. if fst (snd c) = [] then k c else None)"
| "rmatch ci (Seq a b) = (\<lambda>k c. rmatch ci a (rmatch ci b k) c)"
| "rmatch ci (Alt a b) =
     (\<lambda>k c. case rmatch ci a k c of Some r \<Rightarrow> Some r | None \<Rightarrow> rmatch ci b k c)"
| "rmatch ci (Opt a) =
     (\<lambda>k c. case rmatch ci a k c of Some r \<Rightarrow> Some r | None \<Rightarrow> k c)"
| "rmatch ci (Star a) = (\<lambda>k c. greedy_loop (rmatch ci a) k (fst (snd c)) c)"
| "rmatch ci (Plus a) =
     (\<lambda>k c. rmatch ci a (\<lambda>c'. greedy_loop (rmatch ci a) k (fst (snd c')) c') c)"
| "rmatch ci (LazyPlus a) =
     (\<lambda>k c. rmatch ci a (\<lambda>c'. lazy_loop (rmatch ci a) k (fst (snd c')) c') c)"
| "rmatch ci (Grp g a) =
     (\<lambda>k c. rmatch ci a
        (\<lambda>c'. case c' of (pos', rest', caps') \<Rightarrow> k (pos', rest', (g, fst c, pos') # caps')) c)"

primrec fold_case :: "regex \<Rightarrow> regex" where
  "fold_case (Lit w) = Lit (toLowerCase w)"
| "fold_case Dot = Dot"
| "fold_case (Cls items) = Cls items"
| "fold_case (NCls items) = NCls items"
| "fold_case Bol = Bol"
| "fold_case Eol = Eol"
| "fold_case (Seq a b) = Seq (fold_case a) (fold_case b)"
| "fold_case (Alt a b) = Alt (fold_case a) (fold_case b)"
| "fold_case (Opt a) = Opt (fold_case a)"
| "fold_case (Star a) = Star (fold_case a)"
| "fold_case (Plus a) = Plus (fold_case a)"
| "fold_case (LazyPlus a) = LazyPlus (fold_case a)"
| "fold_case (Grp g a) = Grp g (fold_case a)"

text \<open>
  A match: where it starts, where it ends, and the text of its groups.
  \<open>exec_from\<close> is \<^verbatim>\<open>RegExp.prototype.exec\<close> with \<open>lastIndex = start\<close>: the
  start positions are tried from left to right.
\<close>

type_synonym captures = "(nat \<times> string) list"

record rx_match =
  m_start :: nat
  m_end :: nat
  m_groups :: captures

definition slice :: "string \<Rightarrow> nat \<Rightarrow> nat \<Rightarrow> string" where
  "slice s a b = take (b - a) (drop a s)"

text \<open>The start positions from \<open>start\<close> on, each with the subject from there.\<close>

fun suffixes_from :: "nat \<Rightarrow> string \<Rightarrow> (nat \<times> string) list" where
  "suffixes_from i [] = [(i, [])]"
| "suffixes_from i (x # xs) = (i, x # xs) # suffixes_from (Suc i) xs"

definition match_at :: "bool \<Rightarrow> regex \<Rightarrow> string \<Rightarrow> nat \<times> string \<Rightarrow> rx_match option" where
  "match_at ci r s p =
     rmatch ci r
       (\<lambda>c. Some \<lparr>m_start = fst p, m_end = fst c,
                    m_groups = map (\<lambda>(g, a, b). (g, slice s a b)) (snd (snd c))\<rparr>)
       (fst p, snd p, [])"

fun first_some :: "('a \<Rightarrow> 'b option) \<Rightarrow> 'a list \<Rightarrow> 'b option" where
  "first_some f [] = None"
| "first_some f (x # xs) = (case f x of Some y \<Rightarrow> Some y | None \<Rightarrow> first_some f xs)"

definition exec_from :: "bool \<Rightarrow> regex \<Rightarrow> string \<Rightarrow> nat \<Rightarrow> rx_match option" where
  "exec_from ci r s start =
     (if start > length s then None
      else first_some (match_at ci (if ci then fold_case r else r) s)
             (suffixes_from start (drop start (if ci then toLowerCase s else s))))"

text \<open>\<^verbatim>\<open>s.match(r)\<close> for a pattern without the flag \<open>g\<close>.\<close>

definition str_match :: "bool \<Rightarrow> regex \<Rightarrow> string \<Rightarrow> rx_match option" where
  "str_match ci r s = exec_from ci r s 0"

text \<open>\<^verbatim>\<open>m[g]\<close>: the text of group \<open>g\<close>, if the group took part in the match.\<close>

definition group :: "rx_match \<Rightarrow> nat \<Rightarrow> string option" where
  "group m g = map_of (m_groups m) g"

text \<open>
  \<^verbatim>\<open>[...s.matchAll(r)]\<close> for a pattern with the flag \<open>g\<close>: each search starts
  where the match before ended, one further after an empty match.
\<close>

fun match_all_from :: "nat \<Rightarrow> bool \<Rightarrow> regex \<Rightarrow> string \<Rightarrow> nat \<Rightarrow> rx_match list" where
  "match_all_from 0 ci r s start = []"
| "match_all_from (Suc fuel) ci r s start =
     (case exec_from ci r s start of
        None \<Rightarrow> []
      | Some m \<Rightarrow>
          m # match_all_from fuel ci r s
                (if m_end m = m_start m then Suc (m_end m) else m_end m))"

definition matchAll :: "bool \<Rightarrow> regex \<Rightarrow> string \<Rightarrow> rx_match list" where
  "matchAll ci r s = match_all_from (Suc (length s)) ci r s 0"

text \<open>Shorthands for writing patterns.\<close>

fun seqs :: "regex list \<Rightarrow> regex" where
  "seqs [] = Lit []"
| "seqs [r] = r"
| "seqs (r # rs) = Seq r (seqs rs)"

fun alts :: "regex list \<Rightarrow> regex" where
  "alts [] = NCls []"
| "alts [r] = r"
| "alts (r # rs) = Alt r (alts rs)"

definition sp :: regex where "sp = Cls [ClsSpace]"

definition dg :: regex where "dg = Cls [ClsDigit]"

section \<open>The natural-language query engine (aiEngine.ts)\<close>

text \<open>
  A condition \<^verbatim>\<open>{column, operator, value}\<close>; the operators are \<^verbatim>\<open>'>'\<close>,
  \<^verbatim>\<open>'<'\<close>, \<^verbatim>\<open>'='\<close> and \<^verbatim>\<open>'includes'\<close>.
\<close>

datatype operator = OpGt | OpLt | OpEq | OpIncludes

record condition =
  c_column :: string
  c_operator :: operator
  c_value :: jsval

text \<open>The patterns of \<open>parseNaturalLanguageQuery\<close>, in the order of the source.\<close>

definition of_opt :: regex where
  "of_opt = Opt (Seq (Lit ''of'') (Plus sp))"

definition durationMatch_rx :: regex where
  "durationMatch_rx =
     seqs [Lit ''duration'', Plus sp, of_opt,
           alts [seqs [Lit ''more'', Plus sp, Lit ''than''],
                 seqs [Lit ''greater'', Plus sp, Lit ''than''],
                 Seq (Lit ''>'') (Star sp)],
           Grp 1 (Plus dg)]"

definition durationLessMatch_rx :: regex where
  "durationLessMatch_rx =
     seqs [Lit ''duration'', Plus sp, of_opt,
           alts [seqs [Lit ''less'', Plus sp, Lit ''than''],
                 Seq (Lit ''<'') (Star sp)],
           Grp 1 (Plus dg)]"

definition priority_prefix :: "regex list" where
  "priority_prefix =
     [Opt (Seq (Star Dot) (Plus sp)), Lit ''priority'', Plus sp,
      Opt (Seq (Lit ''level'') (Plus sp))]"

definition priorityGreaterMatch_rx :: regex where
  "priorityGreaterMatch_rx =
     seqs (priority_prefix @
           [alts [seqs [Lit ''greater'', Plus sp, Lit ''than''],
                  seqs [Lit ''more'', Plus sp, Lit ''than''],
                  Seq (Lit ''>'') (Star sp)],
            Star sp, Grp 1 (Plus dg)])"

definition priorityLessMatch_rx :: regex where
  "priorityLessMatch_rx =
     seqs (priority_prefix @
           [alts [seqs [Lit ''less'', Plus sp, Lit ''than''],
                  Seq (Lit ''<'') (Star sp)],
            Star sp, Grp 1 (Plus dg)])"

definition priorityExactMatch_rx :: regex where
  "priorityExactMatch_rx = seqs (priority_prefix @ [Grp 1 (Plus dg)])"

definition phaseMatch_rx :: regex where
  "phaseMatch_rx = seqs [Lit ''phase'', Plus sp, Grp 1 (Plus dg)]"

definition letters_spaces :: "citem list" where
  "letters_spaces = [Among lower_chars, Among upper_chars, ClsSpace]"

definition skillMatch_rx :: regex where
  "skillMatch_rx =
     seqs [Lit ''skill'', Opt (Cls [One CHR ''s'']), Plus sp, of_opt,
           Grp 1 (Plus (Cls (letters_spaces @ [One CHR '',''])))]"

definition roleMatch_rx :: regex where
  "roleMatch_rx = seqs [Lit ''role'', Plus sp, of_opt, Grp 1 (Plus (Cls letters_spaces))]"

definition groupMatch_rx :: regex where
  "groupMatch_rx = seqs [Lit ''group'', Plus sp, of_opt, Grp 1 (Plus (Cls letters_spaces))]"

definition categoryMatch_rx :: regex where
  "categoryMatch_rx = seqs [Lit ''category'', Plus sp, of_opt, Grp 1 (Plus (Cls letters_spaces))]"

text \<open>\<^verbatim>\<open>m[1]\<close> as an argument of a string function: an absent group reads \<open>undefined\<close>.\<close>

definition group_text :: "rx_match \<Rightarrow> nat \<Rightarrow> string" where
  "group_text m g = (case group m g of None \<Rightarrow> ''undefined'' | Some t \<Rightarrow> t)"

text \<open>\<^verbatim>\<open>s.split(/p+/)\<close> for a class \<open>p\<close> of characters: the text between the runs of \<open>p\<close>.\<close>

function split_runs :: "(char \<Rightarrow> bool) \<Rightarrow> string \<Rightarrow> string list" where
  "split_runs p [] = [[]]"
| "split_runs p (c # cs) =
     (if p c then [] # split_runs p (dropWhile p cs)
      else (case split_runs p cs of
              [] \<Rightarrow> [[c]]
            | w # ws \<Rightarrow> (c # w) # ws))"
  by pat_completeness auto
termination
  by (relation "measure (\<lambda>(p, s). length s)") (auto simp: length_dropWhile_le less_Suc_eq_le)

definition num_condition :: "string \<Rightarrow> operator \<Rightarrow> rx_match \<Rightarrow> condition" where
  "num_condition col op m =
     \<lparr>c_column = col, c_operator = op, c_value = JNumber (parseInt (group_text m 1))\<rparr>"

definition str_condition :: "string \<Rightarrow> operator \<Rightarrow> string \<Rightarrow> condition" where
  "str_condition col op v = \<lparr>c_column = col, c_operator = op, c_value = JString v\<rparr>"

definition when_match :: "rx_match option \<Rightarrow> (rx_match \<Rightarrow> condition list) \<Rightarrow> condition list" where
  "when_match m f = (case m of None \<Rightarrow> [] | Some x \<Rightarrow> f x)"

definition parseNaturalLanguageQuery :: "string \<Rightarrow> string \<times> condition list" where
  "parseNaturalLanguageQuery query =
     (let lowerQuery = toLowerCase query;
          priorityGreaterMatch = str_match False priorityGreaterMatch_rx lowerQuery;
          priorityLessMatch = str_match False priorityLessMatch_rx lowerQuery
      in (''AND'',
          when_match (str_match False durationMatch_rx lowerQuery)
            (\<lambda>m. [num_condition ''duration'' OpGt m])
          @ when_match (str_match False durationLessMatch_rx lowerQuery)
              (\<lambda>m. [num_condition ''duration'' OpLt m])
          @ when_match priorityGreaterMatch (\<lambda>m. [num_condition ''prioritylevel'' OpGt m])
          @ when_match priorityLessMatch (\<lambda>m. [num_condition ''prioritylevel'' OpLt m])
          @ (if priorityGreaterMatch = None \<and> priorityLessMatch = None
             then when_match (str_match False priorityExactMatch_rx lowerQuery)
                    (\<lambda>m. [num_condition ''prioritylevel'' OpEq m])
             else [])
          @ when_match (str_match False phaseMatch_rx lowerQuery)
              (\<lambda>m. [num_condition ''preferredphases'' OpIncludes m])
          @ when_match (str_match False skillMatch_rx lowerQuery)
              (\<lambda>m. map (\<lambda>skill. str_condition ''requiredskills'' OpIncludes (trim skill))
                     (filter (\<lambda>s. length s > 0)
                        (split_runs (\<lambda>c. c = CHR '','' \<or> is_space c) (group_text m 1))))
          @ when_match (str_match False roleMatch_rx lowerQuery)
              (\<lambda>m. [str_condition ''workergroup'' OpEq (trim (group_text m 1))])
          @ when_match (str_match False groupMatch_rx lowerQuery)
              (\<lambda>m. [str_condition ''grouptag'' OpEq (trim (group_text m 1))])
          @ (if str_includes lowerQuery ''enterprise''
             then [str_condition ''grouptag'' OpEq ''enterprise''] else [])
          @ (if str_includes lowerQuery ''startup''
             then [str_condition ''grouptag'' OpEq ''startup''] else [])
          @ (if str_includes lowerQuery ''small''
             then [str_condition ''grouptag'' OpEq ''small''] else [])
          @ when_match (str_match False categoryMatch_rx lowerQuery)
              (\<lambda>m. [str_condition ''category'' OpEq (trim (group_text m 1))])))"

text \<open>
  A thrown exception is a value of \<open>js_error\<close>; a function that can throw
  returns \<open>js_error + 'a\<close>.
\<close>

datatype js_error = TypeError

text \<open>
  The number a cell is compared as: a string goes through \<open>parseInt\<close>, a
  number is itself, any other value is not a number and never matches.
\<close>

definition numeric_cell :: "jsval \<Rightarrow> jsnum option" where
  "numeric_cell v =
     (case v of
        JString s \<Rightarrow> Some (parseInt s)
      | JNumber n \<Rightarrow> Some n
      | _ \<Rightarrow> None)"

text \<open>
  The right-hand side of a greater-than or less-than condition. The parser puts a number there;
  the coercion JavaScript would apply to another kind of value is not
  modelled, the comparison then counts as not satisfied.
\<close>

definition bound_of :: "jsval \<Rightarrow> jsnum" where
  "bound_of v = (case v of JNumber n \<Rightarrow> n | _ \<Rightarrow> NaN)"

text \<open>\<^verbatim>\<open>xs.includes(v)\<close>: strict equality, except that NaN is found.\<close>

definition array_includes :: "jsval list \<Rightarrow> jsval \<Rightarrow> bool" where
  "array_includes xs v =
     list_ex (\<lambda>x. strict_eq x v \<or> (x = JNumber NaN \<and> v = JNumber NaN)) xs"

text \<open>
  \<open>jsonParse\<close> stands for \<^verbatim>\<open>JSON.parse\<close>, which is not part of the program:
  \<open>None\<close> when it throws, the parsed value otherwise (of which only being
  an array, and then its elements, is looked at).
\<close>

definition matchesCondition ::
  "(string \<Rightarrow> jsval option) \<Rightarrow> jsval \<Rightarrow> condition \<Rightarrow> js_error + bool" where
  "matchesCondition jsonParse v cond =
     (case c_operator cond of
        OpGt \<Rightarrow>
          Inr (case numeric_cell v of
                 None \<Rightarrow> False
               | Some numValue \<Rightarrow> \<not> js_isNaN numValue \<and> js_gt numValue (bound_of (c_value cond)))
      | OpLt \<Rightarrow>
          Inr (case numeric_cell v of
                 None \<Rightarrow> False
               | Some numValue \<Rightarrow> \<not> js_isNaN numValue \<and> js_lt numValue (bound_of (c_value cond)))
      | OpEq \<Rightarrow> Inr (strict_eq v (c_value cond))
      | OpIncludes \<Rightarrow>
          (case v of
             JArray xs \<Rightarrow> Inr (array_includes xs (c_value cond))
           | JString s \<Rightarrow>
               (case jsonParse s of
                  Some parsed \<Rightarrow>
                    Inr (case parsed of
                           JArray xs \<Rightarrow> array_includes xs (c_value cond)
                         | _ \<Rightarrow> False)
                | None \<Rightarrow>
                    (case c_value cond of
                       JString t \<Rightarrow> Inr (str_includes (toLowerCase s) (toLowerCase t))
                     | _ \<Rightarrow> Inl TypeError))
           | _ \<Rightarrow> Inr False))"

record AISearchResult =
  matchedRows :: "nat list"
  query :: string
  explanation :: string

text \<open>The loop over the conditions of one row: it stops at the first that fails.\<close>

fun row_matches ::
  "(string \<Rightarrow> jsval option) \<Rightarrow> row \<Rightarrow> condition list \<Rightarrow> js_error + bool" where
  "row_matches jsonParse r [] = Inr True"
| "row_matches jsonParse r (cond # conds) =
     (case matchesCondition jsonParse (get_prop r (c_column cond)) cond of
        Inl e \<Rightarrow> Inl e
      | Inr ok \<Rightarrow> if ok then row_matches jsonParse r conds else Inr False)"

fun search_rows ::
  "(string \<Rightarrow> jsval option) \<Rightarrow> condition list \<Rightarrow> (row \<times> nat) list \<Rightarrow> nat list
     \<Rightarrow> js_error + nat list" where
  "search_rows jsonParse conds [] matched = Inr matched"
| "search_rows jsonParse conds ((r, index) # rest) matched =
     (case row_matches jsonParse r conds of
        Inl e \<Rightarrow> Inl e
      | Inr ok \<Rightarrow> search_rows jsonParse conds rest (if ok then matched @ [index] else matched))"

definition executeNaturalLanguageSearch ::
  "(string \<Rightarrow> jsval option) \<Rightarrow> row list \<Rightarrow> string \<Rightarrow> js_error + AISearchResult" where
  "executeNaturalLanguageSearch jsonParse data q =
     (case search_rows jsonParse (snd (parseNaturalLanguageQuery q)) (with_index data) [] of
        Inl e \<Rightarrow> Inl e
      | Inr matched \<Rightarrow>
          Inr \<lparr>matchedRows = matched, query = q,
               explanation = ''Found '' @ show_nat (length matched) @ '' rows matching: '' @ q\<rparr>)"

text \<open>The three rows of the example: durations 3, 7 and the text \<open>10\<close>.\<close>

definition duration_rows :: "row list" where
  "duration_rows =
     [[(''duration'', JNumber (Finite 3))], [(''duration'', JNumber (Finite 7))],
      [(''duration'', JString ''10'')]]"

section \<open>The natural-language rule converter (naturalLanguageRuleConverter.ts)\<close>

text \<open>
  The field \<^verbatim>\<open>text\<close> of a rule is \<open>text_of\<close> here; the fields \<^verbatim>\<open>type\<close>,
  \<^verbatim>\<open>confidence\<close> and \<^verbatim>\<open>validation.reason\<close> of a parsed rule are \<open>rtype\<close>,
  \<open>r_confidence\<close> and \<open>v_reason\<close>. Confidences are exact rationals.
\<close>

record NaturalLanguageRule =
  text_of :: string
  entityType :: "string option"

text \<open>The collections the converter is given; each may be absent.\<close>

record rule_data =
  tasks :: "row list option"
  clients :: "row list option"
  workers :: "row list option"

datatype rule_type =
  coRun | slotRestriction | loadLimit | phaseWindow | patternMatch | precedenceOverride

datatype rule_params =
    CoRunParams (p_tasks: "jsval list") (p_description: string)
  | SlotRestrictionParams (p_groupType: string) (p_groupName: string) (p_minCommonSlots: jsnum)
      (p_description: string)
  | LoadLimitParams (p_workerGroup: string) (p_maxSlotsPerPhase: jsnum) (p_description: string)
  | PhaseWindowParams (p_taskId: jsval) (p_allowedPhases: "jsnum list") (p_description: string)
  | PatternMatchParams (p_regex: string) (p_ruleTemplate: string) (p_requiredSkill: string)
      (p_minWorkers: nat) (p_description: string)
  | PrecedenceOverrideParams (p_globalRules: "string list") (p_specificRules: "string list")
      (p_priorityOrder: "string list") (p_description: string)

record rule_validation =
  canApply :: bool
  v_reason :: string
  suggestions :: "string list"

record ParsedRule =
  rtype :: rule_type
  r_confidence :: rat
  parameters :: rule_params
  validation :: rule_validation

text \<open>The pattern families, with the flags \<open>g\<close> and \<open>i\<close>, in the order of the source.\<close>

definition task_or_work :: regex where
  "task_or_work = Alt (Seq (Lit ''task'') (Opt (Lit ''s''))) (Lit ''work'')"

definition client_or_worker :: regex where
  "client_or_worker = Alt (Lit ''client'') (Lit ''worker'')"

definition slots_word :: regex where
  "slots_word = Seq (Lit ''slot'') (Opt (Lit ''s''))"

definition phases_word :: regex where
  "phases_word = Alt (Seq (Lit ''phase'') (Opt (Lit ''s''))) (Lit ''phase'')"

definition coRun_patterns :: "regex list" where
  "coRun_patterns =
     [seqs [task_or_work, Plus sp, Grp 1 (LazyPlus Dot), Plus sp,
            alts [Lit ''must'', Lit ''should'', Lit ''need to''], Plus sp,
            alts [Lit ''run'', Lit ''execute'', Lit ''work''], Plus sp, Lit ''together''],
      seqs [alts [Lit ''co-run'', Lit ''co run'', Lit ''concurrent''], Plus sp,
            task_or_work, Plus sp, Grp 1 (Plus Dot)],
      seqs [task_or_work, Plus sp, Grp 1 (LazyPlus Dot), Plus sp,
            alts [Lit ''are'', Lit ''is''], Plus sp,
            alts [Lit ''always'', Lit ''usually''], Plus sp,
            alts [Lit ''run'', Lit ''executed''], Plus sp, Lit ''together''],
      seqs [alts [Lit ''group'', Lit ''bundle''], Plus sp, task_or_work, Plus sp,
            Grp 1 (Plus Dot)]]"

definition slotRestriction_patterns :: "regex list" where
  "slotRestriction_patterns =
     [seqs [client_or_worker, Plus sp, Opt (Seq (Lit ''group'') (Plus sp)),
            Grp 1 (LazyPlus Dot), Plus sp,
            alts [Lit ''must'', Lit ''should'', Lit ''need to''], Plus sp, Lit ''have'', Plus sp,
            Opt (Seq (Lit ''at least'') (Plus sp)), Grp 2 (Plus dg), Plus sp,
            Opt (Seq (Lit ''common'') (Plus sp)), slots_word],
      seqs [alts [Lit ''minimum'', Lit ''min''], Plus sp, Grp 1 (Plus dg), Plus sp,
            Opt (Seq (Lit ''common'') (Plus sp)), slots_word, Plus sp, Lit ''for'', Plus sp,
            client_or_worker, Plus sp, Opt (Seq (Lit ''group'') (Plus sp)), Grp 2 (Plus Dot)],
      seqs [Opt (Seq (Lit ''slot'') (Plus sp)), Lit ''restriction'', Plus sp, Lit ''for'',
            Plus sp, client_or_worker, Plus sp, Opt (Seq (Lit ''group'') (Plus sp)),
            Grp 1 (LazyPlus Dot), Star sp, Lit '':'', Star sp, Grp 2 (Plus dg)]]"

definition loadLimit_patterns :: "regex list" where
  "loadLimit_patterns =
     [seqs [Opt (Seq (Lit ''worker'') (Plus sp)), Lit ''group'', Plus sp,
            Grp 1 (LazyPlus Dot), Plus sp,
            alts [Lit ''limited to'', Lit ''max'', Lit ''maximum''], Plus sp,
            Grp 2 (Plus dg), Plus sp, Alt slots_word (Lit ''load''), Plus sp, Lit ''per'',
            Plus sp, Lit ''phase''],
      seqs [Opt (Seq (Lit ''load'') (Plus sp)), Lit ''limit'', Plus sp, Lit ''for'', Plus sp,
            Opt (Seq (Lit ''worker'') (Plus sp)), Lit ''group'', Plus sp,
            Grp 1 (LazyPlus Dot), Star sp, Lit '':'', Star sp, Grp 2 (Plus dg)],
      seqs [Opt (Seq (Lit ''worker'') (Plus sp)), Lit ''group'', Plus sp,
            Grp 1 (LazyPlus Dot), Plus sp, Lit ''cannot'', Plus sp, Lit ''exceed'', Plus sp,
            Grp 2 (Plus dg), Plus sp, Alt slots_word (Lit ''load'')]]"

definition phaseWindow_patterns :: "regex list" where
  "phaseWindow_patterns =
     [seqs [Alt (Lit ''task'') (Lit ''work''), Plus sp, Grp 1 (LazyPlus Dot), Plus sp,
            alts [Lit ''must'', Lit ''should'', Lit ''can only''], Plus sp,
            alts [Lit ''run'', Lit ''execute'', Lit ''work''], Plus sp,
            alts [Lit ''in'', Lit ''during'', Lit ''on''], Plus sp, phases_word, Plus sp,
            Grp 2 (Plus Dot)],
      seqs [Opt (Seq (Lit ''phase'') (Plus sp)), Lit ''window'', Plus sp, Lit ''for'', Plus sp,
            Alt (Lit ''task'') (Lit ''work''), Plus sp, Grp 1 (LazyPlus Dot), Star sp,
            Lit '':'', Star sp, Grp 2 (Plus Dot)],
      seqs [Alt (Lit ''task'') (Lit ''work''), Plus sp, Grp 1 (LazyPlus Dot), Plus sp,
            alts [Lit ''restricted to'', Lit ''limited to''], Plus sp, phases_word, Plus sp,
            Grp 2 (Plus Dot)]]"

definition patternMatch_patterns :: "regex list" where
  "patternMatch_patterns =
     [seqs [alts [Lit ''pattern'', Lit ''regex''], Plus sp, Grp 1 (LazyPlus Dot), Plus sp,
            alts [Lit ''for'', Lit ''matching''], Plus sp, Grp 2 (Plus Dot)],
      seqs [alts [Lit ''rule'', Lit ''condition''], Plus sp, alts [Lit ''when'', Lit ''if''],
            Plus sp, Grp 1 (LazyPlus Dot), Plus sp, alts [Lit ''then'', Lit ''apply''], Plus sp,
            Grp 2 (Plus Dot)],
      seqs [alts [Lit ''custom'', Lit ''user-defined''], Plus sp,
            alts [Lit ''rule'', Lit ''condition''], Plus sp, Grp 1 (Plus Dot)]]"

definition precedenceOverride_patterns :: "regex list" where
  "precedenceOverride_patterns =
     [seqs [alts [Lit ''precedence'', Lit ''priority''], Plus sp,
            alts [Lit ''order'', Lit ''override''], Plus sp, Grp 1 (Plus Dot)],
      seqs [alts [Lit ''global'', Lit ''specific''], Plus sp,
            Alt (Seq (Lit ''rule'') (Opt (Lit ''s''))) (Lit ''rule''), Plus sp,
            alts [Lit ''vs'', Lit ''versus''], Plus sp, Grp 1 (Plus Dot)],
      seqs [Opt (Seq (Lit ''rule'') (Plus sp)), Lit ''priority'', Plus sp, Grp 1 (Plus Dot)]]"

text \<open>The phase texts of the converter: a range, a list, or one number.\<close>

definition phases_opt :: regex where
  "phases_opt = Opt (seqs [Lit ''phase'', Opt (Lit ''s''), Plus sp])"

definition rangeMatch_rx :: regex where
  "rangeMatch_rx =
     seqs [phases_opt, Grp 1 (Plus dg), Star sp, Alt (Lit ''to'') (Lit ''-''), Star sp,
           Grp 2 (Plus dg)]"

definition listMatch_rx :: regex where
  "listMatch_rx =
     seqs [phases_opt,
           Grp 1 (Seq (Plus dg) (Star (seqs [Star sp, Lit '','', Star sp, Plus dg])))]"

definition singleMatch_rx :: regex where
  "singleMatch_rx = seqs [Opt (Seq (Lit ''phase'') (Plus sp)), Grp 1 (Plus dg)]"

definition int_range :: "jsnum \<Rightarrow> jsnum \<Rightarrow> jsnum list" where
  "int_range a b =
     (case (a, b) of
        (Finite x, Finite y) \<Rightarrow> map (\<lambda>i. Finite (of_int i)) [\<lfloor>x\<rfloor> .. \<lfloor>y\<rfloor>]
      | _ \<Rightarrow> [])"

definition nl_parsePhaseRange :: "string \<Rightarrow> jsnum list" where
  "nl_parsePhaseRange t =
     (case str_match True rangeMatch_rx t of
        Some m \<Rightarrow> int_range (parseInt (group_text m 1)) (parseInt (group_text m 2))
      | None \<Rightarrow>
          (case str_match True listMatch_rx t of
             Some m \<Rightarrow>
               filter (\<lambda>n. \<not> js_isNaN n)
                 (map (\<lambda>n. parseInt (trim n)) (split_char CHR '','' (group_text m 1)))
           | None \<Rightarrow>
               (case str_match True singleMatch_rx t of
                  Some m \<Rightarrow> filter (\<lambda>n. \<not> js_isNaN n) [parseInt (group_text m 1)]
                | None \<Rightarrow> [])))"

text \<open>\<^verbatim>\<open>[...new Set(xs)]\<close>: the first occurrence of every value, in order.\<close>

fun dedupe :: "jsval list \<Rightarrow> jsval list" where
  "dedupe [] = []"
| "dedupe (x # xs) = x # dedupe (filter (\<lambda>y. \<not> array_includes [x] y) xs)"

text \<open>
  The map from lower-cased task names to ids, built row by row (a later row
  replaces an earlier one of the same name). A name that is set and is not a
  string has no \<^verbatim>\<open>toLowerCase\<close>: the call throws. Properties that every
  object inherits (\<open>constructor\<close>, \<open>__proto__\<close>) are not modelled.
\<close>

fun taskNameToId :: "row list \<Rightarrow> (string \<times> jsval) list \<Rightarrow> js_error + (string \<times> jsval) list" where
  "taskNameToId [] acc = Inr acc"
| "taskNameToId (t # ts) acc =
     (if truthy (get_prop t ''taskname'')
      then (case get_prop t ''taskname'' of
              JString name \<Rightarrow> taskNameToId ts (AList.update (toLowerCase name) (get_prop t ''taskid'') acc)
            | _ \<Rightarrow> Inl TypeError)
      else taskNameToId ts acc)"

definition extractTaskIds :: "string \<Rightarrow> rule_data \<Rightarrow> js_error + jsval list" where
  "extractTaskIds t data =
     (case tasks data of
        None \<Rightarrow> Inr []
      | Some ts \<Rightarrow>
          (let existingTaskIds = map (\<lambda>r. get_prop r ''taskid'') ts;
               byId = map JString
                        (filter (\<lambda>cleanWord. array_includes existingTaskIds (JString cleanWord))
                           (map (filter is_word) (split_runs is_space t)))
           in (case taskNameToId ts [] of
                 Inl e \<Rightarrow> Inl e
               | Inr names \<Rightarrow>
                   Inr (dedupe
                          (byId @
                           concat (map (\<lambda>word. case map_of names word of
                                                  None \<Rightarrow> []
                                                | Some i \<Rightarrow> if truthy i then [i] else [])
                                     (split_runs is_space (toLowerCase t))))))))"

text \<open>
  The group values of the clients or of the workers, then an exact word of
  the text among them, then the first group whose name the text contains.
\<close>

fun first_contained :: "string \<Rightarrow> jsval list \<Rightarrow> js_error + string option" where
  "first_contained t [] = Inr None"
| "first_contained t (g # gs) =
     (case g of
        JString name \<Rightarrow>
          (if str_includes (toLowerCase t) (toLowerCase name) then Inr (Some name)
           else first_contained t gs)
      | _ \<Rightarrow> Inl TypeError)"

definition extractGroupName :: "string \<Rightarrow> rule_data \<Rightarrow> string \<Rightarrow> js_error + string option" where
  "extractGroupName t data groupType =
     (let groups =
            (if groupType = ''client''
             then dedupe (case clients data of None \<Rightarrow> []
                          | Some cs \<Rightarrow> map (\<lambda>c. get_prop c ''grouptag'') cs)
             else dedupe (case workers data of None \<Rightarrow> []
                          | Some ws \<Rightarrow> map (\<lambda>w. get_prop w ''workergroup'') ws))
      in (case find_first (\<lambda>cleanWord. array_includes groups (JString cleanWord))
                 (map (filter is_word) (split_runs is_space (toLowerCase t))) of
            Some cleanWord \<Rightarrow> Inr (Some cleanWord)
          | None \<Rightarrow> first_contained t groups))"

definition extractNumber :: "string \<Rightarrow> jsnum option" where
  "extractNumber t =
     (case str_match False (Grp 1 (Plus dg)) t of
        None \<Rightarrow> None
      | Some m \<Rightarrow> Some (parseInt (group_text m 1)))"

text \<open>The best candidate so far and its confidence; a later one must be strictly better.\<close>

type_synonym best = "ParsedRule option \<times> rat"

definition take_better :: "ParsedRule \<Rightarrow> best \<Rightarrow> best" where
  "take_better cand b =
     (if r_confidence cand > snd b then (Some cand, r_confidence cand) else b)"

fun fold_err :: "('a \<Rightarrow> 's \<Rightarrow> js_error + 's) \<Rightarrow> 'a list \<Rightarrow> 's \<Rightarrow> js_error + 's" where
  "fold_err f [] s = Inr s"
| "fold_err f (x # xs) s = (case f x s of Inl e \<Rightarrow> Inl e | Inr s' \<Rightarrow> fold_err f xs s')"

text \<open>All matches of a family in a text: pattern after pattern, match after match.\<close>

definition family_matches :: "regex list \<Rightarrow> string \<Rightarrow> rx_match list" where
  "family_matches patterns t = concat (map (\<lambda>p. matchAll True p t) patterns)"

text \<open>\<^verbatim>\<open>xs.join(sep)\<close> on values: \<open>null\<close> and \<open>undefined\<close> give the empty text.\<close>

definition join_with :: "string \<Rightarrow> jsval list \<Rightarrow> string" where
  "join_with sep xs =
     join sep (map (\<lambda>x. if x = JUndefined \<or> x = JNull then [] else to_string x) xs)"

definition coRun_step :: "rule_data \<Rightarrow> rx_match \<Rightarrow> best \<Rightarrow> js_error + best" where
  "coRun_step data m b =
     (case extractTaskIds (group_text m 1) data of
        Inl e \<Rightarrow> Inl e
      | Inr taskIds \<Rightarrow>
          Inr (if length taskIds \<ge> 2
               then take_better
                      \<lparr>rtype = coRun,
                       r_confidence = min (9 / 10) (1 / 2 + of_nat (length taskIds) * (1 / 10)),
                       parameters =
                         CoRunParams taskIds
                           (''Tasks '' @ join_with '', '' taskIds @ '' must run together''),
                       validation =
                         \<lparr>canApply = (length taskIds \<ge> 2),
                          v_reason = (if length taskIds \<ge> 2 then ''Valid co-run rule''
                                      else ''Need at least 2 tasks''),
                          suggestions = []\<rparr>\<rparr> b
               else b))"

definition positive :: "jsnum option \<Rightarrow> bool" where
  "positive n = (case n of None \<Rightarrow> False
                 | Some v \<Rightarrow> truthy (JNumber v) \<and> js_gt v (Finite 0))"

definition slotRestriction_step ::
  "string \<Rightarrow> rule_data \<Rightarrow> rx_match \<Rightarrow> best \<Rightarrow> js_error + best" where
  "slotRestriction_step t data m b =
     (let minSlots = extractNumber (group_text m 2)
      in if positive minSlots
         then (let isClientGroup = (str_includes t ''client'' \<or> str_includes t ''customer'');
                   isWorkerGroup = (str_includes t ''worker'' \<or> str_includes t ''employee'');
                   groupType = (if isClientGroup then ''client''
                                else if isWorkerGroup then ''worker'' else ''client'')
               in (case extractGroupName (group_text m 1) data groupType of
                     Inl e \<Rightarrow> Inl e
                   | Inr None \<Rightarrow> Inr b
                   | Inr (Some groupName) \<Rightarrow>
                       Inr (if groupName \<noteq> []
                            then take_better
                                   \<lparr>rtype = slotRestriction, r_confidence = 8 / 10,
                                    parameters =
                                      SlotRestrictionParams groupType groupName (the minSlots)
                                        (groupType @ '' group '' @ groupName
                                         @ '' requires minimum '' @ show_num (the minSlots)
                                         @ '' common slots''),
                                    validation =
                                      \<lparr>canApply = True,
                                       v_reason = ''Valid slot restriction rule'',
                                       suggestions = []\<rparr>\<rparr> b
                            else b)))
         else Inr b)"

definition loadLimit_step :: "rule_data \<Rightarrow> rx_match \<Rightarrow> best \<Rightarrow> js_error + best" where
  "loadLimit_step data m b =
     (let maxSlots = extractNumber (group_text m 2)
      in if positive maxSlots
         then (case extractGroupName (group_text m 1) data ''worker'' of
                 Inl e \<Rightarrow> Inl e
               | Inr None \<Rightarrow> Inr b
               | Inr (Some groupName) \<Rightarrow>
                   Inr (if groupName \<noteq> []
                        then take_better
                               \<lparr>rtype = loadLimit, r_confidence = 8 / 10,
                                parameters =
                                  LoadLimitParams groupName (the maxSlots)
                                    (''Worker group '' @ groupName @ '' limited to ''
                                     @ show_num (the maxSlots) @ '' slots per phase''),
                                validation =
                                  \<lparr>canApply = True, v_reason = ''Valid load limit rule'',
                                   suggestions = []\<rparr>\<rparr> b
                        else b))
         else Inr b)"

definition phaseWindow_step :: "rule_data \<Rightarrow> rx_match \<Rightarrow> best \<Rightarrow> js_error + best" where
  "phaseWindow_step data m b =
     (case extractTaskIds (group_text m 1) data of
        Inl e \<Rightarrow> Inl e
      | Inr taskIds \<Rightarrow>
          (let phases = nl_parsePhaseRange (group_text m 2)
           in Inr (if length taskIds > 0 \<and> length phases > 0
                   then take_better
                          \<lparr>rtype = phaseWindow, r_confidence = 7 / 10,
                           parameters =
                             PhaseWindowParams (hd taskIds) phases
                               (''Task '' @ to_string (hd taskIds) @ '' restricted to phases ''
                                @ join '', '' (map show_num phases)),
                           validation =
                             \<lparr>canApply = (length taskIds > 0 \<and> length phases > 0),
                              v_reason = (if length taskIds > 0 \<and> length phases > 0
                                          then ''Valid phase window rule''
                                          else ''Need task ID and phases''),
                              suggestions = []\<rparr>\<rparr> b
                   else b)))"

definition patternMatch_step :: "rx_match \<Rightarrow> best \<Rightarrow> js_error + best" where
  "patternMatch_step m b =
     (let patternText = group_text m 1;
          rx = (if str_includes patternText ''skill'' \<or> str_includes patternText ''javascript''
                   \<or> str_includes patternText ''python''
                then ''.*(skill|javascript|python).*''
                else if str_includes patternText ''priority'' \<or> str_includes patternText ''high''
                then ''.*(priority|high).*''
                else ''.*'' @ concat (map (\<lambda>c. if is_word c \<or> is_space c then [c] else ''.*'')
                                         patternText) @ ''.*'')
      in Inr (take_better
                \<lparr>rtype = patternMatch, r_confidence = 6 / 10,
                 parameters =
                   PatternMatchParams rx ''skill-requirement'' ''skill'' 1
                     (''Pattern match rule: '' @ patternText),
                 validation =
                   \<lparr>canApply = True, v_reason = ''Valid pattern match rule'',
                    suggestions = [''Consider refining the regex pattern for better accuracy'']\<rparr>\<rparr>
                b))"

definition precedenceOverride_step :: "rx_match \<Rightarrow> best \<Rightarrow> js_error + best" where
  "precedenceOverride_step m b =
     Inr (take_better
            \<lparr>rtype = precedenceOverride, r_confidence = 5 / 10,
             parameters =
               PrecedenceOverrideParams [] [] [] (''Precedence override: '' @ group_text m 1),
             validation =
               \<lparr>canApply = False,
                v_reason = ''Precedence override rules require manual configuration'',
                suggestions = [''Please specify the exact rule priority order manually'']\<rparr>\<rparr>
            b)"

definition then_err :: "js_error + 's \<Rightarrow> ('s \<Rightarrow> js_error + 't) \<Rightarrow> js_error + 't" where
  "then_err r f = (case r of Inl e \<Rightarrow> Inl e | Inr s \<Rightarrow> f s)"

definition parseNaturalLanguageRule ::
  "NaturalLanguageRule \<Rightarrow> rule_data \<Rightarrow> js_error + ParsedRule option" where
  "parseNaturalLanguageRule rule data =
     (let t = toLowerCase (text_of rule)
      in then_err (fold_err (coRun_step data) (family_matches coRun_patterns t) (None, 0))
        (\<lambda>b1. then_err
           (fold_err (slotRestriction_step t data) (family_matches slotRestriction_patterns t) b1)
        (\<lambda>b2. then_err (fold_err (loadLimit_step data) (family_matches loadLimit_patterns t) b2)
        (\<lambda>b3. then_err (fold_err (phaseWindow_step data) (family_matches phaseWindow_patterns t) b3)
        (\<lambda>b4. then_err (fold_err patternMatch_step (family_matches patternMatch_patterns t) b4)
        (\<lambda>b5. then_err
           (fold_err precedenceOverride_step (family_matches precedenceOverride_patterns t) b5)
        (\<lambda>b6. Inr (fst b6))))))))"

text \<open>
  The second pass: the candidate is checked against the data it names. The
  parameters are those of the rule's type, as the parser builds them.
\<close>

definition existing_of :: "row list option \<Rightarrow> string \<Rightarrow> jsval list" where
  "existing_of rows key = (case rows of None \<Rightarrow> [] | Some rs \<Rightarrow> map (\<lambda>r. get_prop r key) rs)"

definition validateRuleAgainstData :: "ParsedRule \<Rightarrow> rule_data \<Rightarrow> ParsedRule" where
  "validateRuleAgainstData rule data =
     rule\<lparr>validation :=
       (case (rtype rule, parameters rule) of
          (coRun, CoRunParams ts d) \<Rightarrow>
            (let existingTasks = existing_of (tasks data) ''taskid'';
                 missingTasks = filter (\<lambda>taskId. \<not> array_includes existingTasks taskId) ts
             in if length missingTasks > 0
                then (validation rule)\<lparr>canApply := False,
                       v_reason := ''Tasks not found: '' @ join_with '', '' missingTasks\<rparr>
                else validation rule)
        | (slotRestriction, SlotRestrictionParams gt gn n d) \<Rightarrow>
            (if gt = ''client''
             then (if \<not> array_includes (dedupe (existing_of (clients data) ''grouptag'')) (JString gn)
                   then (validation rule)\<lparr>canApply := False,
                          v_reason := ''Client group \"'' @ gn @ ''\" not found''\<rparr>
                   else validation rule)
             else if gt = ''worker''
             then (if \<not> array_includes (dedupe (existing_of (workers data) ''workergroup'')) (JString gn)
                   then (validation rule)\<lparr>canApply := False,
                          v_reason := ''Worker group \"'' @ gn @ ''\" not found''\<rparr>
                   else validation rule)
             else validation rule)
        | (loadLimit, LoadLimitParams wg n d) \<Rightarrow>
            (if \<not> array_includes (dedupe (existing_of (workers data) ''workergroup'')) (JString wg)
             then (validation rule)\<lparr>canApply := False,
                    v_reason := ''Worker group \"'' @ wg @ ''\" not found''\<rparr>
             else validation rule)
        | (phaseWindow, PhaseWindowParams tid ps d) \<Rightarrow>
            (if \<not> array_includes (existing_of (tasks data) ''taskid'') tid
             then (validation rule)\<lparr>canApply := False,
                    v_reason := ''Task \"'' @ to_string tid @ ''\" not found''\<rparr>
             else validation rule)
        | _ \<Rightarrow> validation rule)\<rparr>"

text \<open>Data that holds tasks with the given ids and nothing else, and the example sentence.\<close>

definition task_rows :: "string list \<Rightarrow> rule_data" where
  "task_rows ids =
     \<lparr>tasks = Some (map (\<lambda>i. [(''taskid'', JString i)]) ids), clients = None, workers = None\<rparr>"

definition run_together :: NaturalLanguageRule where
  "run_together = \<lparr>text_of = ''Tasks T1 and T2 must run together'', entityType = None\<rparr>"

section \<open>The suggestion rules (aiEngine.ts)\<close>

text \<open>\<^verbatim>\<open>s.replace(pat, rep)\<close> for a text pattern: the first occurrence is replaced.\<close>

fun replace_first :: "string \<Rightarrow> string \<Rightarrow> string \<Rightarrow> string" where
  "replace_first pat rep [] = (if pat = [] then rep else [])"
| "replace_first pat rep (c # cs) =
     (if starts_with pat (c # cs) then rep @ drop (length pat) (c # cs)
      else c # replace_first pat rep cs)"

definition domainFixes :: "(string \<times> string) list" where
  "domainFixes =
     [(''gmial.com'', ''gmail.com''), (''gmal.com'', ''gmail.com''), (''gmai.com'', ''gmail.com''),
      (''hotmai.com'', ''hotmail.com''), (''hotmal.com'', ''hotmail.com''),
      (''yaho.com'', ''yahoo.com''), (''outlok.com'', ''outlook.com'')]"

definition not_space_at :: regex where
  "not_space_at = Plus (NCls [ClsSpace, One CHR ''@''])"

definition isValidEmail :: "string \<Rightarrow> bool" where
  "isValidEmail email =
     (str_match False
        (seqs [Bol, not_space_at, Lit ''@'', not_space_at, Lit ''.'', not_space_at, Eol]) email
      \<noteq> None)"

text \<open>
  The tables of the rules are looked up by their own keys only; what every
  JavaScript object inherits (a key such as \<open>constructor\<close>) is not modelled.
\<close>

definition fix_domain :: "string \<Rightarrow> string" where
  "fix_domain correctedEmail =
     (case split_char CHR ''@'' correctedEmail of
        _ # domain # _ \<Rightarrow>
          (if domain \<noteq> []
           then (case map_of domainFixes domain of
                   Some fixed \<Rightarrow> replace_first domain fixed correctedEmail
                 | None \<Rightarrow> correctedEmail)
           else correctedEmail)
      | _ \<Rightarrow> correctedEmail)"

definition add_missing_at :: "string \<Rightarrow> string" where
  "add_missing_at correctedEmail =
     (if CHR ''@'' \<notin> set correctedEmail \<and> CHR ''.'' \<in> set correctedEmail
      then (case split_char CHR ''.'' correctedEmail of
              p # q # ps \<Rightarrow> p @ ''@'' @ join ''.'' (q # ps)
            | _ \<Rightarrow> correctedEmail)
      else correctedEmail)"

definition email_row :: "string \<Rightarrow> row \<times> nat \<Rightarrow> suggestion list" where
  "email_row emailColumn ri =
     (case get_prop (fst ri) emailColumn of
        JString email \<Rightarrow>
          (if email \<noteq> []
           then (let correctedEmail = add_missing_at (fix_domain (toLowerCase (trim email)))
                 in if correctedEmail \<noteq> email \<and> isValidEmail correctedEmail
                    then [\<lparr>stype = format_error, rowIndex = snd ri, column = emailColumn,
                           currentValue = JString email, suggestedValue = JString correctedEmail,
                           confidence = Finite (9 / 10),
                           reason = ''Fixed common email format issues'', autoApply = True\<rparr>]
                    else [])
           else [])
      | _ \<Rightarrow> [])"

definition smart_email_correction :: "row list \<Rightarrow> js_error + suggestion list" where
  "smart_email_correction data =
     (case findColumnByPattern data [''email''] of
        None \<Rightarrow> Inr []
      | Some emailColumn \<Rightarrow> Inr (concat (map (email_row emailColumn) (with_index data))))"

definition phone_row :: "string \<Rightarrow> row \<times> nat \<Rightarrow> suggestion list" where
  "phone_row phoneColumn ri =
     (case get_prop (fst ri) phoneColumn of
        JString phone \<Rightarrow>
          (if phone \<noteq> []
           then (let digits = filter is_digit phone
                 in if length digits = 10
                    then (let formattedPhone =
                                ''('' @ take 3 digits @ '') '' @ take 3 (drop 3 digits) @ ''-''
                                @ drop 6 digits
                          in if formattedPhone \<noteq> phone
                             then [\<lparr>stype = format_error, rowIndex = snd ri,
                                    column = phoneColumn, currentValue = JString phone,
                                    suggestedValue = JString formattedPhone,
                                    confidence = Finite (95 / 100),
                                    reason = ''Standardized phone number format'',
                                    autoApply = True\<rparr>]
                             else [])
                    else [])
           else [])
      | _ \<Rightarrow> [])"

definition smart_phone_correction :: "row list \<Rightarrow> js_error + suggestion list" where
  "smart_phone_correction data =
     (case findColumnByPattern data [''phone'', ''phone_number'', ''contact''] of
        None \<Rightarrow> Inr []
      | Some phoneColumn \<Rightarrow> Inr (concat (map (phone_row phoneColumn) (with_index data))))"

definition roleSkillMap :: "(string \<times> string list) list" where
  "roleSkillMap =
     [(''developer'', [''javascript'', ''python'', ''java'', ''react'', ''node.js'', ''sql'']),
      (''designer'', [''figma'', ''sketch'', ''adobe'', ''ui/ux'', ''prototyping'', ''wireframing'']),
      (''manager'', [''leadership'', ''project management'', ''communication'', ''agile'', ''scrum'']),
      (''analyst'', [''data analysis'', ''sql'', ''excel'', ''python'', ''statistics'', ''reporting'']),
      (''engineer'', [''java'', ''python'', ''c++'', ''system design'', ''algorithms'', ''databases''])]"

text \<open>
  \<^verbatim>\<open>JSON.stringify\<close> of an array of strings. Quotes and backslashes are
  escaped; control characters, of which the table has none, are not treated.
\<close>

definition json_string :: "string \<Rightarrow> string" where
  "json_string s =
     [CHR 0x22]
     @ concat (map (\<lambda>c. if c = CHR 0x22 \<or> c = CHR 0x5C then [CHR 0x5C, c] else [c]) s)
     @ [CHR 0x22]"

definition json_stringify_strings :: "string list \<Rightarrow> string" where
  "json_stringify_strings xs = ''['' @ join '','' (map json_string xs) @ '']''"

text \<open>
  Calling \<^verbatim>\<open>toLowerCase\<close> on a cell: a string has the method, any other value
  that reaches the call makes it throw.
\<close>

definition cell_toLowerCase :: "jsval \<Rightarrow> js_error + string" where
  "cell_toLowerCase v = (case v of JString s \<Rightarrow> Inr (toLowerCase s) | _ \<Rightarrow> Inl TypeError)"

definition skill_row :: "string \<Rightarrow> string \<Rightarrow> row \<times> nat \<Rightarrow> js_error + suggestion list" where
  "skill_row skillsColumn roleColumn ri =
     (let role = get_prop (fst ri) roleColumn;
          skills = get_prop (fst ri) skillsColumn
      in if truthy role \<and> \<not> truthy skills
         then (case cell_toLowerCase role of
                 Inl e \<Rightarrow> Inl e
               | Inr roleLower \<Rightarrow>
                   (let suggestedSkills =
                          (case map_of roleSkillMap roleLower of None \<Rightarrow> [] | Some ss \<Rightarrow> ss)
                    in Inr (if length suggestedSkills > 0
                            then [\<lparr>stype = missing_value, rowIndex = snd ri,
                                   column = skillsColumn, currentValue = JNull,
                                   suggestedValue =
                                     JString (json_stringify_strings suggestedSkills),
                                   confidence = Finite (8 / 10),
                                   reason = ''Suggested skills based on role: '' @ to_string role,
                                   autoApply = False\<rparr>]
                            else [])))
         else Inr [])"

text \<open>A loop over the rows that stops at the first exception.\<close>

fun collect_rows :: "('a \<Rightarrow> js_error + 'b list) \<Rightarrow> 'a list \<Rightarrow> js_error + 'b list" where
  "collect_rows f [] = Inr []"
| "collect_rows f (x # xs) =
     (case f x of
        Inl e \<Rightarrow> Inl e
      | Inr ys \<Rightarrow> (case collect_rows f xs of Inl e \<Rightarrow> Inl e | Inr zs \<Rightarrow> Inr (ys @ zs)))"

definition smart_skill_suggestions :: "row list \<Rightarrow> js_error + suggestion list" where
  "smart_skill_suggestions data =
     (case (findColumnByPattern data [''skills'', ''requiredskills'', ''required_skills''],
            findColumnByPattern data [''role'', ''position'', ''job'']) of
        (Some skillsColumn, Some roleColumn) \<Rightarrow>
          collect_rows (skill_row skillsColumn roleColumn) (with_index data)
      | _ \<Rightarrow> Inr [])"

definition js_ge :: "jsnum \<Rightarrow> jsnum \<Rightarrow> bool" where
  "js_ge a b = (js_gt a b \<or> (a = b \<and> a \<noteq> NaN))"

definition estimate_by_title :: "string \<Rightarrow> int" where
  "estimate_by_title titleLower =
     (if str_includes titleLower ''review'' \<or> str_includes titleLower ''test'' then 2
      else if str_includes titleLower ''design'' \<or> str_includes titleLower ''plan'' then 7
      else if str_includes titleLower ''implement'' \<or> str_includes titleLower ''develop'' then 10
      else if str_includes titleLower ''research'' \<or> str_includes titleLower ''analysis'' then 5
      else 5)"

definition priority_number :: "jsval \<Rightarrow> jsnum" where
  "priority_number priority =
     (case priority of JNumber n \<Rightarrow> n | _ \<Rightarrow> parseInt (to_string priority))"

definition duration_row ::
  "string \<Rightarrow> string \<Rightarrow> string option \<Rightarrow> row \<times> nat \<Rightarrow> js_error + suggestion list" where
  "duration_row durationColumn titleColumn priorityColumn ri =
     (let duration = get_prop (fst ri) durationColumn;
          title = get_prop (fst ri) titleColumn;
          priority = (case priorityColumn of None \<Rightarrow> JNull | Some pc \<Rightarrow> get_prop (fst ri) pc)
      in if \<not> truthy duration \<and> truthy title
         then (case cell_toLowerCase title of
                 Inl e \<Rightarrow> Inl e
               | Inr titleLower \<Rightarrow>
                   (let estimated = estimate_by_title titleLower;
                        estimatedDuration =
                          (if truthy priority \<and> js_ge (priority_number priority) (Finite 4)
                           then max 1 (estimated - 2) else estimated)
                    in Inr [\<lparr>stype = missing_value, rowIndex = snd ri,
                             column = durationColumn, currentValue = JNull,
                             suggestedValue = JNumber (Finite (of_int estimatedDuration)),
                             confidence = Finite (7 / 10),
                             reason = ''Estimated duration based on task title: '' @ [CHR 0x22]
                                      @ to_string title @ [CHR 0x22],
                             autoApply = False\<rparr>]))
         else Inr [])"

definition smart_duration_estimation :: "row list \<Rightarrow> js_error + suggestion list" where
  "smart_duration_estimation data =
     (case (findColumnByPattern data [''duration''],
            findColumnByPattern data [''title'', ''name'']) of
        (Some durationColumn, Some titleColumn) \<Rightarrow>
          collect_rows
            (duration_row durationColumn titleColumn
               (findColumnByPattern data [''prioritylevel'', ''priority_level'', ''priority'']))
            (with_index data)
      | _ \<Rightarrow> Inr [])"

definition aiValidationRules :: "(row list \<Rightarrow> js_error + suggestion list) list" where
  "aiValidationRules =
     [smart_email_correction, smart_phone_correction, smart_skill_suggestions,
      smart_duration_estimation]"

definition generateAIValidationSuggestions ::
  "row list \<Rightarrow> string \<Rightarrow> js_error + suggestion list" where
  "generateAIValidationSuggestions data entityKind =
     collect_rows (\<lambda>rule. rule data) aiValidationRules"

text \<open>Notions used to state what the comparison matrix holds.\<close>

definition square :: "nat \<Rightarrow> jsnum list list \<Rightarrow> bool" where
  "square n m = (length m = n \<and> list_all (\<lambda>r. length r = n) m)"

definition index_of :: "PrioritizationCriteria list \<Rightarrow> string \<Rightarrow> nat option" where
  "index_of cs x = findIndex (\<lambda>c. cid c = x) cs"

definition covers :: "PrioritizationCriteria list \<Rightarrow> PairwiseComparison \<Rightarrow> nat \<Rightarrow> nat \<Rightarrow> bool" where
  "covers cs c a b =
     ((index_of cs (criterion1 c) = Some a \<and> index_of cs (criterion2 c) = Some b)
      \<or> (index_of cs (criterion1 c) = Some b \<and> index_of cs (criterion2 c) = Some a))"

definition default_comparison :: "PrioritizationCriteria list \<Rightarrow> nat \<Rightarrow> nat \<Rightarrow> PairwiseComparison" where
  "default_comparison cs i j =
     \<lparr>criterion1 = cid (cs ! i), criterion2 = cid (cs ! j), cvalue = Finite 1\<rparr>"

(* Properties *)

section \<open>Properties of applying suggestions\<close>

lemma apply_as_filter:
  "applyAISuggestions data ss = fold merge_suggestion (filter should_apply ss) data"
  unfolding applyAISuggestions_def by (induction ss arbitrary: data) auto

lemma merge_suggestion_sets_cell:
  "\<exists>r. array_get (merge_suggestion s d) (rowIndex s) = Some r
       \<and> get_prop r (column s) = suggestedValue s"
  by (auto simp: merge_suggestion_def array_set_def array_get_def spread_with_def
        get_prop_def update_conv' nth_append split: option.splits)

text \<open>
  C6. A suggestion of the list is merged exactly when its autoApply flag is
  set or its confidence is strictly above 0.8: the result is the dataset
  obtained by merging, in order, the suggestions that pass this test and no
  others, and a merge does write the suggested value into the targeted cell.
  A suggestion with confidence 0.85 and autoApply false is merged; one with
  confidence 0.5 and autoApply false leaves the dataset as it is.
\<close>

theorem applyAISuggestions_merges_iff:
  "applyAISuggestions data ss
     = fold merge_suggestion
         (filter (\<lambda>s. autoApply s \<or> js_gt (confidence s) (Finite (4 / 5))) ss) data
   \<and> (\<exists>r. array_get (merge_suggestion s data) (rowIndex s) = Some r
          \<and> get_prop r (column s) = suggestedValue s)
   \<and> applyAISuggestions data [s\<lparr>confidence := Finite (17 / 20), autoApply := False\<rparr>]
       = merge_suggestion (s\<lparr>confidence := Finite (17 / 20), autoApply := False\<rparr>) data
   \<and> applyAISuggestions data [s\<lparr>confidence := Finite (1 / 2), autoApply := False\<rparr>] = data"
proof -
  have "should_apply = (\<lambda>s. autoApply s \<or> js_gt (confidence s) (Finite (4 / 5)))"
    by (rule ext) (simp add: should_apply_def)
  then have "applyAISuggestions data ss
     = fold merge_suggestion
         (filter (\<lambda>s. autoApply s \<or> js_gt (confidence s) (Finite (4 / 5))) ss) data"
    using apply_as_filter[of data ss] by simp
  moreover have "applyAISuggestions data [s\<lparr>confidence := Finite (17 / 20), autoApply := False\<rparr>]
       = merge_suggestion (s\<lparr>confidence := Finite (17 / 20), autoApply := False\<rparr>) data"
    by (simp add: applyAISuggestions_def should_apply_def)
  moreover have "applyAISuggestions data [s\<lparr>confidence := Finite (1 / 2), autoApply := False\<rparr>] = data"
    by (simp add: applyAISuggestions_def should_apply_def)
  ultimately show ?thesis using merge_suggestion_sets_cell[of s data] by blast
qed

theorem applyAISuggestions_merges_iff_witness:
  "applyAISuggestions sample_rows [sample_suggestion (Finite (17 / 20)) False]
     = [Some [(''name'', JString ''Ann''), (''email'', JString ''ann@gmail.com'')],
        Some [(''name'', JString ''Bob''), (''email'', JString ''bob@example.com'')]]
   \<and> applyAISuggestions sample_rows [sample_suggestion (Finite (1 / 2)) False] = sample_rows"
  using applyAISuggestions_merges_iff[of sample_rows "[]" "sample_suggestion NaN False"]
  by (simp add: sample_suggestion_def sample_rows_def merge_suggestion_def array_get_def
        array_set_def spread_with_def)



subsection \<open>No write reaches the input\<close>

lemma merge_h_frame:
  assumes "n \<le> a" and "n \<le> length h"
  shows "take n (merge_suggestion_h a s h) = take n h
       \<and> length h \<le> length (merge_suggestion_h a s h)"
  using assms by (simp add: merge_suggestion_h_def alloc_def Let_def)

lemma fold_h_frame:
  assumes "n \<le> a" and "n \<le> length h"
  shows "take n (fold (\<lambda>s h'. if should_apply s then merge_suggestion_h a s h' else h') ss h)
       = take n h"
  using assms
proof (induction ss arbitrary: h)
  case Nil
  then show ?case by simp
next
  case (Cons s ss)
  then show ?case using merge_h_frame[of n a h s] by (auto simp: le_trans)
qed

lemma apply_h_frame:
  "take (length h) (fst (applyAISuggestions_h h data ss)) = h
   \<and> snd (applyAISuggestions_h h data ss) = length h"
  using fold_h_frame[of "length h" "length h" "h @ [ArrayObj (read_array h data)]" ss]
  by (simp add: applyAISuggestions_h_def alloc_def)


lemma closed_arrayD:
  assumes "closed_array h a"
  shows "\<exists>els. a < length h \<and> h ! a = ArrayObj els
           \<and> (\<forall>b. Some b \<in> set els \<longrightarrow> b < length h)"
  using assms unfolding closed_array_def
  by (cases "h ! a") (auto simp: list_all_iff split: option.splits)

lemma read_row_ext:
  assumes "\<And>b. ref = Some b \<Longrightarrow> b < length h" and "\<And>b. ref = Some b \<Longrightarrow> b \<noteq> a"
  shows "read_row ((h @ [ob])[a := ob']) ref = read_row h ref"
  using assms by (cases ref) (auto simp: read_row_def nth_append)

lemma map_array_set:
  assumes "f None = None" and "f (Some v) = Some w"
  shows "map f (array_set xs i v) = array_set (map f xs) i w"
  using assms by (simp add: array_set_def map_update)

lemma set_array_set: "set (array_set xs i v) \<subseteq> insert (Some v) (insert None (set xs))"
  using set_update_subset_insert[of xs i "Some v"] by (auto simp: array_set_def)

lemma merge_h_refines:
  assumes "closed_array h a"
  shows "read_dataset (merge_suggestion_h a s h) a = merge_suggestion s (read_dataset h a)
       \<and> closed_array (merge_suggestion_h a s h) a"
proof -
  from closed_arrayD[OF assms] obtain els where a: "a < length h" and ha: "h ! a = ArrayObj els"
    and els: "\<And>b. Some b \<in> set els \<Longrightarrow> b < length h"
    by blast
  have ra: "read_array h a = els" using a ha by (simp add: read_array_def)
  let ?i = "rowIndex s"
  let ?new = "RowObj (spread_with (read_row h (array_get els ?i)) (column s) (suggestedValue s))"
  let ?els' = "array_set els ?i (length h)"
  let ?h' = "(h @ [?new])[a := ArrayObj ?els']"
  have h': "merge_suggestion_h a s h = ?h'"
    by (simp add: merge_suggestion_h_def ra alloc_def)
  have notarr: "\<And>b. Some b \<in> set els \<Longrightarrow> b \<noteq> a
                 \<Longrightarrow> read_row ?h' (Some b) = read_row h (Some b)"
    using els by (intro read_row_ext) auto
  have arr: "read_row ?h' (Some a) = None" "read_row h (Some a) = None"
    using a ha by (auto simp: read_row_def)
  have old: "\<And>r. r \<in> set els \<Longrightarrow> read_row ?h' r = read_row h r"
  proof -
    fix r assume r: "r \<in> set els"
    show "read_row ?h' r = read_row h r"
    proof (cases r)
      case None
      then show ?thesis by (simp add: read_row_def)
    next
      case (Some b)
      then show ?thesis using notarr[of b] arr r by (cases "b = a") auto
    qed
  qed
  have fresh: "read_row ?h' (Some (length h))
                 = Some (spread_with (read_row h (array_get els ?i)) (column s) (suggestedValue s))"
    using a by (simp add: read_row_def nth_append)
  have ra': "read_array ?h' a = ?els'" using a by (simp add: read_array_def)
  have get: "array_get (map (read_row h) els) ?i = read_row h (array_get els ?i)"
    by (simp add: array_get_def read_row_def)
  have none: "read_row ?h' None = None" by (simp add: read_row_def)
  have mapeq: "map (read_row ?h') els = map (read_row h) els"
    using old by (simp add: map_eq_conv)
  have "map (read_row ?h') ?els' = array_set (map (read_row h) els) ?i
          (spread_with (read_row h (array_get els ?i)) (column s) (suggestedValue s))"
    using map_array_set[of "read_row ?h'", OF none fresh, of els ?i] mapeq by simp
  then have 1: "read_dataset ?h' a = merge_suggestion s (read_dataset h a)"
    by (simp add: read_dataset_def ra ra' merge_suggestion_def get)
  have "\<And>b. Some b \<in> set ?els' \<Longrightarrow> b < Suc (length h)"
    using els set_array_set[of els ?i "length h"] by fastforce
  then have 2: "closed_array ?h' a" using a
    by (auto simp: closed_array_def list_all_iff split: option.splits)
  from 1 2 h' show ?thesis by simp
qed

lemma fold_h_refines:
  assumes "closed_array h a"
  shows "read_dataset
           (fold (\<lambda>s h'. if should_apply s then merge_suggestion_h a s h' else h') ss h) a
       = applyAISuggestions (read_dataset h a) ss"
  using assms
proof (induction ss arbitrary: h)
  case Nil
  then show ?case by (simp add: applyAISuggestions_def)
next
  case (Cons s ss)
  then show ?case using merge_h_refines[of h a s] by (simp add: applyAISuggestions_def)
qed

lemma apply_h_refines:
  assumes "closed_array h data"
  shows "read_dataset (fst (applyAISuggestions_h h data ss)) (snd (applyAISuggestions_h h data ss))
       = applyAISuggestions (read_dataset h data) ss"
proof -
  from closed_arrayD[OF assms] obtain els where a: "data < length h"
    and ha: "h ! data = ArrayObj els"
    and els: "\<And>b. Some b \<in> set els \<Longrightarrow> b < length h"
    by blast
  let ?h1 = "h @ [ArrayObj els]"
  have ra: "read_array h data = els" using a ha by (simp add: read_array_def)
  have c: "closed_array ?h1 (length h)"
    using els by (fastforce simp: closed_array_def list_all_iff split: option.splits)
  have "\<And>r. r \<in> set els \<Longrightarrow> read_row ?h1 r = read_row h r"
  proof -
    fix r assume r: "r \<in> set els"
    show "read_row ?h1 r = read_row h r"
    proof (cases r)
      case None
      then show ?thesis by (simp add: read_row_def)
    next
      case (Some b)
      then show ?thesis using els[of b] r by (simp add: read_row_def nth_append)
    qed
  qed
  then have "map (read_row ?h1) els = map (read_row h) els"
    by (simp add: map_eq_conv)
  then have "read_dataset ?h1 (length h) = read_dataset h data"
    by (simp add: read_dataset_def ra) (simp add: read_array_def)
  then show ?thesis
    using fold_h_refines[OF c, of ss] by (simp add: applyAISuggestions_h_def alloc_def ra)
qed

lemma read_dataset_prefix:
  assumes "closed_array h a" and "take (length h) h' = h"
  shows "read_array h' a = read_array h a \<and> read_dataset h' a = read_dataset h a"
proof -
  from closed_arrayD[OF assms(1)] obtain els where a: "a < length h" and ha: "h ! a = ArrayObj els"
    and els: "\<And>b. Some b \<in> set els \<Longrightarrow> b < length h"
    by blast
  have "min (length h') (length h) = length h"
    using arg_cong[OF assms(2), of length] by simp
  then have len: "length h \<le> length h'" by linarith
  have nth: "\<And>b. b < length h \<Longrightarrow> h' ! b = h ! b"
    using assms(2) by (metis nth_take)
  have ra: "read_array h' a = read_array h a"
    using a len nth[of a] by (simp add: read_array_def)
  have "\<And>r. r \<in> set els \<Longrightarrow> read_row h' r = read_row h r"
  proof -
    fix r assume r: "r \<in> set els"
    show "read_row h' r = read_row h r"
    proof (cases r)
      case None
      then show ?thesis by (simp add: read_row_def)
    next
      case (Some b)
      then show ?thesis using els[of b] r len nth[of b] by (simp add: read_row_def)
    qed
  qed
  then have "map (read_row h') els = map (read_row h) els"
    by (simp add: map_eq_conv)
  moreover have "read_array h a = els" using a ha by (simp add: read_array_def)
  ultimately show ?thesis using ra by (simp add: read_dataset_def)
qed

text \<open>
  C10. applyAISuggestions writes nothing into what existed before the call:
  every object of the store, the input array and its row objects among them,
  is afterwards what it was; the input array holds the same references and
  denotes the same dataset; the returned array is a newly allocated one, and
  it is this array that holds the merged result.
\<close>

theorem applyAISuggestions_input_unchanged:
  assumes "closed_array h data"
  shows "take (length h) (fst (applyAISuggestions_h h data ss)) = h
    \<and> snd (applyAISuggestions_h h data ss) = length h
    \<and> read_array (fst (applyAISuggestions_h h data ss)) data = read_array h data
    \<and> read_dataset (fst (applyAISuggestions_h h data ss)) data = read_dataset h data
    \<and> read_dataset (fst (applyAISuggestions_h h data ss)) (snd (applyAISuggestions_h h data ss))
        = applyAISuggestions (read_dataset h data) ss"
  using apply_h_frame[of h data ss] apply_h_refines[OF assms, of ss]
    read_dataset_prefix[OF assms, of "fst (applyAISuggestions_h h data ss)"]
  by simp

theorem applyAISuggestions_input_unchanged_witness:
  "closed_array sample_heap 2
   \<and> read_dataset (fst (applyAISuggestions_h sample_heap 2
                          [sample_suggestion (Finite (9 / 10)) True])) 2 = sample_rows
   \<and> read_dataset (fst (applyAISuggestions_h sample_heap 2
                          [sample_suggestion (Finite (9 / 10)) True])) 3
       = [Some [(''name'', JString ''Ann''), (''email'', JString ''ann@gmail.com'')],
          Some [(''name'', JString ''Bob''), (''email'', JString ''bob@example.com'')]]"
proof -
  have c: "closed_array sample_heap 2"
    by (simp add: closed_array_def sample_heap_def)
  have d: "read_dataset sample_heap 2 = sample_rows"
    by (simp add: read_dataset_def read_array_def read_row_def sample_heap_def sample_rows_def)
  have l: "length sample_heap = 3" by (simp add: sample_heap_def)
  have e: "applyAISuggestions sample_rows [sample_suggestion (Finite (9 / 10)) True]
       = [Some [(''name'', JString ''Ann''), (''email'', JString ''ann@gmail.com'')],
          Some [(''name'', JString ''Bob''), (''email'', JString ''bob@example.com'')]]"
    by (simp add: applyAISuggestions_def should_apply_def sample_suggestion_def sample_rows_def
          merge_suggestion_def array_get_def array_set_def spread_with_def)
  have s: "snd (applyAISuggestions_h sample_heap 2 [sample_suggestion (Finite (9 / 10)) True]) = 3"
    using applyAISuggestions_input_unchanged[OF c, of "[sample_suggestion (Finite (9 / 10)) True]"] l
    by simp
  from applyAISuggestions_input_unchanged[OF c, of "[sample_suggestion (Finite (9 / 10)) True]"]
    c d e show ?thesis unfolding s by simp
qed

section \<open>Properties of the AHP weighting\<close>

lemma fold_add_Finite:
  "fold (\<lambda>v s. js_add s v) (map Finite ws) (Finite a) = Finite (a + sum_list ws)"
  by (induction ws arbitrary: a) (simp_all add: add.assoc)

lemma reduce_sum_Finite: "reduce_sum (map Finite ws) = Finite (sum_list ws)"
  using fold_add_Finite[of ws 0] by (simp add: reduce_sum_def)






subsection \<open>Equal importance throughout\<close>

lemma square_nth: "square n m \<Longrightarrow> a < n \<Longrightarrow> length (m ! a) = n"
  by (simp add: square_def list_all_length)

lemma set_entry_square: "square n m \<Longrightarrow> square n (set_entry m i j v)"
proof (cases "i < length m")
  case True
  assume "square n m"
  then show ?thesis using True
    unfolding square_def set_entry_def list_all_length
    by (simp add: nth_list_update)
next
  case False
  assume "square n m"
  then show ?thesis using False by (simp add: set_entry_def list_update_beyond)
qed

lemma set_entry_nth:
  assumes "square n m" and "a < n" and "b < n"
  shows "set_entry m i j v ! a ! b = (if a = i \<and> b = j then v else m ! a ! b)"
proof (cases "i < length m")
  case True
  note i = this
  show ?thesis
  proof (cases "j < length (m ! i)")
    case True
    then show ?thesis using i assms unfolding set_entry_def
      by (simp add: nth_list_update)
  next
    case False
    then have "j \<ge> n" using square_nth[OF assms(1), of i] i assms(1) by (simp add: square_def)
    then show ?thesis using False i assms unfolding set_entry_def
      by (simp add: nth_list_update)
  qed
next
  case False
  then have "i \<ge> n" using assms(1) by (simp add: square_def)
  then show ?thesis using False assms by (simp add: set_entry_def list_update_beyond)
qed

lemma zero_matrix_square: "square n (zero_matrix n)"
  by (simp add: square_def zero_matrix_def list_all_length)

lemma diag_fold:
  assumes "square n m" and "a < n" and "b < n"
  shows "square n (fold (\<lambda>i m. set_entry m i i v) is m)
       \<and> fold (\<lambda>i m. set_entry m i i v) is m ! a ! b
           = (if a = b \<and> a \<in> set is then v else m ! a ! b)"
  using assms
proof (induction "is" arbitrary: m)
  case Nil
  then show ?case by simp
next
  case (Cons i "is")
  have sq: "square n (set_entry m i i v)" using Cons.prems(1) by (rule set_entry_square)
  show ?case
    using Cons.IH[OF sq Cons.prems(2,3)] set_entry_nth[OF Cons.prems, of i i v]
    by auto
qed

lemma fill_one:
  assumes "square n m" and "a < n" and "b < n" and "cvalue c = Finite 1"
  shows "square n (fill_comparison cs c m)
       \<and> fill_comparison cs c m ! a ! b = (if covers cs c a b then Finite 1 else m ! a ! b)"
proof (cases "index_of cs (criterion1 c)")
  case None
  then show ?thesis using assms by (simp add: fill_comparison_def index_of_def covers_def)
next
  case (Some i)
  note i = this
  show ?thesis
  proof (cases "index_of cs (criterion2 c)")
    case None
    then show ?thesis using assms i by (simp add: fill_comparison_def index_of_def covers_def)
  next
    case (Some j)
    have sq1: "square n (set_entry m i j (Finite 1))" using assms(1) by (rule set_entry_square)
    have sq2: "square n (set_entry (set_entry m i j (Finite 1)) j i (Finite 1))"
      using sq1 by (rule set_entry_square)
    have eq: "fill_comparison cs c m = set_entry (set_entry m i j (Finite 1)) j i (Finite 1)"
      using i Some assms(4) by (simp add: fill_comparison_def index_of_def)
    have cov: "covers cs c a b = ((a = i \<and> b = j) \<or> (a = j \<and> b = i))"
      unfolding covers_def i Some by auto
    have e1: "set_entry (set_entry m i j (Finite 1)) j i (Finite 1) ! a ! b
               = (if a = j \<and> b = i then Finite 1 else set_entry m i j (Finite 1) ! a ! b)"
      by (rule set_entry_nth[OF sq1 assms(2,3)])
    have e2: "set_entry m i j (Finite 1) ! a ! b
               = (if a = i \<and> b = j then Finite 1 else m ! a ! b)"
      by (rule set_entry_nth[OF assms(1,2,3)])
    have e: "set_entry (set_entry m i j (Finite 1)) j i (Finite 1) ! a ! b
             = (if (a = i \<and> b = j) \<or> (a = j \<and> b = i) then Finite 1 else m ! a ! b)"
      unfolding e1 e2 by (cases "a = i"; cases "b = j"; cases "a = j"; cases "b = i"; simp)
    show ?thesis unfolding eq cov using sq2 e by simp
  qed
qed

lemma fill_all:
  assumes "square n m" and "a < n" and "b < n" and "list_all (\<lambda>c. cvalue c = Finite 1) comps"
  shows "square n (fold (fill_comparison cs) comps m)
       \<and> fold (fill_comparison cs) comps m ! a ! b
           = (if list_ex (\<lambda>c. covers cs c a b) comps then Finite 1 else m ! a ! b)"
  using assms
proof (induction comps arbitrary: m)
  case Nil
  then show ?case by simp
next
  case (Cons c comps)
  have c1: "cvalue c = Finite 1" and rest: "list_all (\<lambda>c. cvalue c = Finite 1) comps"
    using Cons.prems(4) by simp_all
  from fill_one[OF Cons.prems(1,2,3) c1, of cs]
  have sq: "square n (fill_comparison cs c m)"
    and e: "fill_comparison cs c m ! a ! b = (if covers cs c a b then Finite 1 else m ! a ! b)"
    by simp_all
  show ?case using Cons.IH[OF sq Cons.prems(2,3) rest] e by auto
qed

lemma findIndex_distinct:
  assumes "distinct (map cid cs)" and "i < length cs"
  shows "index_of cs (cid (cs ! i)) = Some i"
  using assms unfolding index_of_def
proof (induction cs arbitrary: i)
  case Nil
  then show ?case by simp
next
  case (Cons c cs)
  show ?case
  proof (cases i)
    case 0
    then show ?thesis by simp
  next
    case (Suc k)
    then have k: "k < length cs" using Cons.prems(2) by simp
    have "cid (cs ! k) \<in> set (map cid cs)" using k by simp
    then have ne: "cid c \<noteq> cid (cs ! k)" using Cons.prems(1) by auto
    have "findIndex (\<lambda>x. cid x = cid (cs ! k)) cs = Some k"
      using Cons.IH[OF _ k] Cons.prems(1) by simp
    then show ?thesis using Suc ne by simp
  qed
qed

lemma generated_values:
  "list_all (\<lambda>c. cvalue c = Finite 1) (generatePairwiseComparisons cs)"
  by (auto simp: generatePairwiseComparisons_def list_all_iff)

lemma set_upper_pairs:
  "set (concat (map (\<lambda>i. map (f i) [Suc i ..< n]) [0 ..< n])) = {f i j | i j. i < j \<and> j < n}"
proof -
  have "set (concat (map (\<lambda>i. map (f i) [Suc i ..< n]) [0 ..< n]))
          = (\<Union>i\<in>{0 ..< n}. f i ` {Suc i ..< n})"
    by simp
  also have "\<dots> = {f i j | i j. i < j \<and> j < n}"
  proof (rule set_eqI)
    fix x
    show "x \<in> (\<Union>i\<in>{0 ..< n}. f i ` {Suc i ..< n}) \<longleftrightarrow> x \<in> {f i j | i j. i < j \<and> j < n}"
    proof
      assume "x \<in> (\<Union>i\<in>{0 ..< n}. f i ` {Suc i ..< n})"
      then obtain i j where "i < n" "Suc i \<le> j" "j < n" "x = f i j" by auto
      then have "i < j \<and> j < n \<and> x = f i j" by simp
      then show "x \<in> {f i j | i j. i < j \<and> j < n}" by blast
    next
      assume "x \<in> {f i j | i j. i < j \<and> j < n}"
      then obtain i j where ij: "i < j" "j < n" and x: "x = f i j" by blast
      have "i \<in> {0 ..< n}" "j \<in> {Suc i ..< n}" using ij by simp_all
      then show "x \<in> (\<Union>i\<in>{0 ..< n}. f i ` {Suc i ..< n})" using x by blast
    qed
  qed
  finally show ?thesis .
qed

lemma generated_pairs:
  "set (generatePairwiseComparisons cs)
     = {default_comparison cs i j | i j. i < j \<and> j < length cs}"
proof -
  have "generatePairwiseComparisons cs
          = concat (map (\<lambda>i. map (default_comparison cs i) [Suc i ..< length cs])
                      [0 ..< length cs])"
    unfolding generatePairwiseComparisons_def default_comparison_def by (rule refl)
  then show ?thesis using set_upper_pairs[of "default_comparison cs" "length cs"] by simp
qed

lemma covers_default:
  assumes "distinct (map cid cs)" and "i < j" and "j < length cs"
  shows "covers cs (default_comparison cs i j) a b = ((a = i \<and> b = j) \<or> (a = j \<and> b = i))"
proof -
  have "index_of cs (cid (cs ! i)) = Some i" "index_of cs (cid (cs ! j)) = Some j"
    using findIndex_distinct[OF assms(1)] assms(2,3) by simp_all
  then show ?thesis by (auto simp: covers_def default_comparison_def)
qed

lemma generated_covers:
  assumes "distinct (map cid cs)" and "a < length cs" and "b < length cs"
  shows "list_ex (\<lambda>c. covers cs c a b) (generatePairwiseComparisons cs) = (a \<noteq> b)"
proof -
  have "(\<exists>c \<in> set (generatePairwiseComparisons cs). covers cs c a b) = (a \<noteq> b)"
  proof
    assume "\<exists>c \<in> set (generatePairwiseComparisons cs). covers cs c a b"
    then obtain i j where ij: "i < j" "j < length cs"
      and cov: "covers cs (default_comparison cs i j) a b"
      unfolding generated_pairs by blast
    then show "a \<noteq> b" using covers_default[OF assms(1) ij] by auto
  next
    assume ne: "a \<noteq> b"
    define i where "i = min a b"
    define j where "j = max a b"
    have ij: "i < j" "j < length cs"
      using ne assms(2,3) by (auto simp: i_def j_def)
    have mem: "default_comparison cs i j \<in> set (generatePairwiseComparisons cs)"
      unfolding generated_pairs using ij by blast
    have "covers cs (default_comparison cs i j) a b"
      unfolding covers_default[OF assms(1) ij] using ne
      by (auto simp: i_def j_def min_def max_def)
    then show "\<exists>c \<in> set (generatePairwiseComparisons cs). covers cs c a b"
      using mem by blast
  qed
  then show ?thesis by (simp add: list_ex_iff)
qed

lemma square_tabulate:
  assumes "square n m" and "\<And>a b. a < n \<Longrightarrow> b < n \<Longrightarrow> m ! a ! b = f a b"
  shows "m = map (\<lambda>a. map (f a) [0 ..< n]) [0 ..< n]"
proof (rule nth_equalityI)
  show "length m = length (map (\<lambda>a. map (f a) [0 ..< n]) [0 ..< n])"
    using assms(1) by (simp add: square_def)
next
  fix a assume "a < length m"
  then have a: "a < n" using assms(1) by (simp add: square_def)
  have "m ! a = map (f a) [0 ..< n]"
  proof (rule nth_equalityI)
    show "length (m ! a) = length (map (f a) [0 ..< n])"
      using square_nth[OF assms(1) a] by simp
  next
    fix b assume "b < length (m ! a)"
    then have "b < n" using square_nth[OF assms(1) a] by simp
    then show "m ! a ! b = map (f a) [0 ..< n] ! b" using assms(2)[OF a] by simp
  qed
  then show "m ! a = map (\<lambda>a. map (f a) [0 ..< n]) [0 ..< n] ! a" using a by simp
qed

lemma weights_matrix:
  assumes "distinct (map cid cs)"
  shows "fold (fill_comparison cs) (generatePairwiseComparisons cs)
           (fold (\<lambda>i m. set_entry m i i (Finite 1)) [0 ..< length cs] (zero_matrix (length cs)))
         = map (\<lambda>a. map (\<lambda>b. Finite 1) [0 ..< length cs]) [0 ..< length cs]"
proof -
  let ?n = "length cs"
  let ?m0 = "fold (\<lambda>i m. set_entry m i i (Finite 1)) [0 ..< ?n] (zero_matrix ?n)"
  let ?W = "fold (fill_comparison cs) (generatePairwiseComparisons cs) ?m0"
  have sq0: "square ?n ?m0"
    and d: "\<And>a b. a < ?n \<Longrightarrow> b < ?n \<Longrightarrow> ?m0 ! a ! b = (if a = b then Finite 1 else Finite 0)"
  proof -
    show "square ?n ?m0"
    proof (cases "?n")
      case 0
      then show ?thesis by (simp add: square_def zero_matrix_def)
    next
      case (Suc k)
      then have "0 < ?n" by simp
      from diag_fold[OF zero_matrix_square this this] show ?thesis by simp
    qed
  next
    fix a b assume ab: "a < ?n" "b < ?n"
    from diag_fold[OF zero_matrix_square ab, of "Finite 1" "[0 ..< ?n]"] ab
    show "?m0 ! a ! b = (if a = b then Finite 1 else Finite 0)"
      by (simp add: zero_matrix_def)
  qed
  have sqW: "square ?n ?W"
  proof (cases "?n")
    case 0
    then show ?thesis using sq0 by (simp add: generatePairwiseComparisons_def)
  next
    case (Suc k)
    then have "0 < ?n" by simp
    from fill_all[OF sq0 this this generated_values] show ?thesis by simp
  qed
  have "?W ! a ! b = Finite 1" if "a < ?n" "b < ?n" for a b
    using fill_all[OF sq0 that generated_values[of cs], of cs] generated_covers[OF assms that] d[OF that]
    by (cases "a = b") simp_all
  then show ?thesis using square_tabulate[OF sqW, of "\<lambda>a b. Finite 1"] by simp
qed

lemma ratio_matrix:
  assumes "distinct (map cid cs)"
  shows "fold (fill_comparison cs) (generatePairwiseComparisons cs) (zero_matrix (length cs))
         = map (\<lambda>a. map (\<lambda>b. Finite (if a = b then 0 else 1)) [0 ..< length cs])
             [0 ..< length cs]"
proof -
  let ?n = "length cs"
  let ?C = "fold (fill_comparison cs) (generatePairwiseComparisons cs) (zero_matrix ?n)"
  have sqC: "square ?n ?C"
  proof (cases "?n")
    case 0
    then show ?thesis using zero_matrix_square[of 0] by (simp add: generatePairwiseComparisons_def)
  next
    case (Suc k)
    then have "0 < ?n" by simp
    from fill_all[OF zero_matrix_square this this generated_values] show ?thesis by simp
  qed
  have "?C ! a ! b = Finite (if a = b then 0 else 1)" if "a < ?n" "b < ?n" for a b
    using fill_all[OF zero_matrix_square that generated_values[of cs], of cs]
      generated_covers[OF assms that] that
    by (cases "a = b") (simp_all add: zero_matrix_def)
  then show ?thesis
    using square_tabulate[OF sqC, of "\<lambda>a b. Finite (if a = b then 0 else 1)"] by simp
qed

lemma uniform_weights:
  assumes "distinct (map cid cs)" and "0 < length cs"
  shows "calculateWeightsFromPairwise (generatePairwiseComparisons cs) cs
         = replicate (length cs) (Finite (1 / of_nat (length cs)))"
proof -
  let ?n = "length cs"
  have row: "map (\<lambda>b. Finite 1) [0 ..< ?n] = map Finite (replicate ?n 1)"
    by (simp add: map_replicate_const)
  have rs: "reduce_sum (map (\<lambda>b. Finite 1) [0 ..< ?n]) = Finite (of_nat ?n)"
    unfolding row reduce_sum_Finite by (simp add: sum_list_replicate)
  have rowSums: "map reduce_sum (map (\<lambda>a. map (\<lambda>b. Finite 1) [0 ..< ?n]) [0 ..< ?n])
                 = map Finite (replicate ?n (of_nat ?n))"
    using rs by (simp add: map_replicate_const comp_def)
  have total: "reduce_sum (map Finite (replicate ?n (of_nat ?n))) = Finite (of_nat ?n * of_nat ?n)"
    unfolding reduce_sum_Finite by (simp add: sum_list_replicate)
  have ne: "(of_nat ?n * of_nat ?n :: rat) \<noteq> 0" using assms(2) by simp
  have "calculateWeightsFromPairwise (generatePairwiseComparisons cs) cs
        = map (\<lambda>sum. js_div sum (Finite (of_nat ?n * of_nat ?n)))
            (map Finite (replicate ?n (of_nat ?n)))"
    unfolding calculateWeightsFromPairwise_def Let_def weights_matrix[OF assms(1)] rowSums total
    by (rule refl)
  also have "\<dots> = replicate ?n (Finite (1 / of_nat ?n))"
    using ne assms(2) by (simp add: map_replicate_const comp_def)
  finally show ?thesis .
qed

lemma fold_weighted:
  assumes "length xs \<le> length ws"
  shows "fold (\<lambda>(val, j) sum. js_add sum (js_mul val (num_at (map Finite ws) j)))
           (zip (map Finite xs) [0 ..< length xs]) (Finite s)
         = Finite (s + (\<Sum>j<length xs. xs ! j * ws ! j))"
  using assms
proof (induction xs rule: rev_induct)
  case Nil
  then show ?case by simp
next
  case (snoc x xs)
  have len: "length xs < length ws" using snoc.prems by simp
  have z: "zip (map Finite (xs @ [x])) [0 ..< length (xs @ [x])]
           = zip (map Finite xs) [0 ..< length xs] @ [(Finite x, length xs)]"
    by simp
  have ih: "fold (\<lambda>(val, j) sum. js_add sum (js_mul val (num_at (map Finite ws) j)))
              (zip (map Finite xs) [0 ..< length xs]) (Finite s)
            = Finite (s + (\<Sum>j<length xs. xs ! j * ws ! j))"
    using snoc.IH len by simp
  have same: "(\<Sum>j<length xs. (xs @ [x]) ! j * ws ! j) = (\<Sum>j<length xs. xs ! j * ws ! j)"
    by (rule sum.cong) (simp_all add: nth_append)
  show ?case
    unfolding z fold_append comp_def ih
    using len same by (simp add: num_at_def nth_append)
qed

lemma fold_divided:
  assumes "length xs \<le> length ws" and "\<And>j. j < length xs \<Longrightarrow> ws ! j \<noteq> 0"
  shows "fold (\<lambda>(val, i) sum. js_add sum (js_div val (num_at (map Finite ws) i)))
           (zip (map Finite xs) [0 ..< length xs]) (Finite s)
         = Finite (s + (\<Sum>j<length xs. xs ! j / ws ! j))"
  using assms
proof (induction xs rule: rev_induct)
  case Nil
  then show ?case by simp
next
  case (snoc x xs)
  have len: "length xs < length ws" using snoc.prems(1) by simp
  have nz: "ws ! length xs \<noteq> 0" using snoc.prems(2)[of "length xs"] by simp
  have z: "zip (map Finite (xs @ [x])) [0 ..< length (xs @ [x])]
           = zip (map Finite xs) [0 ..< length xs] @ [(Finite x, length xs)]"
    by simp
  have ih: "fold (\<lambda>(val, i) sum. js_add sum (js_div val (num_at (map Finite ws) i)))
              (zip (map Finite xs) [0 ..< length xs]) (Finite s)
            = Finite (s + (\<Sum>j<length xs. xs ! j / ws ! j))"
    using snoc.IH[OF _ snoc.prems(2)] len by simp
  have same: "(\<Sum>j<length xs. (xs @ [x]) ! j / ws ! j) = (\<Sum>j<length xs. xs ! j / ws ! j)"
    by (rule sum.cong) (simp_all add: nth_append)
  show ?case
    unfolding z fold_append comp_def ih
    using len nz same by (simp add: num_at_def nth_append)
qed

lemma sum_off_diagonal:
  assumes "a < n"
  shows "(\<Sum>j<n. (if a = j then 0 else 1) * (c::rat)) = (of_nat n - 1) * c"
proof -
  have "(\<Sum>j<n. (if a = j then 0 else 1) * c) = (\<Sum>j<n. c - (if a = j then c else 0))"
    by (rule sum.cong) simp_all
  also have "\<dots> = (\<Sum>j<n. c) - (\<Sum>j<n. if a = j then c else 0)"
    by (rule sum_subtractf)
  also have "\<dots> = of_nat n * c - c"
    using assms by simp
  finally show ?thesis by (simp add: algebra_simps)
qed

lemma randomIndex_positive:
  assumes "2 \<le> k" and "k \<le> 9"
  shows "\<exists>r. 0 < r \<and> num_at randomIndex k = Finite r"
proof -
  let ?ri = "[0, 0, 58 / 100, 9 / 10, 112 / 100, 124 / 100, 132 / 100, 141 / 100, 145 / 100,
              149 / 100] :: rat list"
  have "k = 2 \<or> k = 3 \<or> k = 4 \<or> k = 5 \<or> k = 6 \<or> k = 7 \<or> k = 8 \<or> k = 9"
    using assms by arith
  then have "0 < ?ri ! k \<and> num_at randomIndex k = Finite (?ri ! k)"
    by (elim disjE) (simp_all add: randomIndex_def num_at_def)
  then show ?thesis by blast
qed

lemma ratio_value:
  assumes "distinct (map cid cs)" and "2 \<le> length cs"
    and "num_at randomIndex (min (length cs) 9) = Finite r" and "0 < r"
  shows "calculateConsistencyRatio (generatePairwiseComparisons cs) cs
         = Finite (- 1 / ((of_nat (length cs) - 1) * r))"
proof -
  let ?n = "length cs"
  let ?w = "replicate ?n (1 / of_nat ?n :: rat)"
  have pos: "0 < ?n" using assms(2) by linarith
  have n0: "(of_nat ?n :: rat) \<noteq> 0" using pos by simp
  have "?n \<noteq> 1" using assms(2) by linarith
  then have n1: "(of_nat ?n :: rat) - 1 \<noteq> 0" by simp
  have w: "calculateWeightsFromPairwise (generatePairwiseComparisons cs) cs = map Finite ?w"
    using uniform_weights[OF assms(1) pos] by (simp add: map_replicate_const)
  have row: "fold (\<lambda>(val, j) sum. js_add sum (js_mul val (num_at (map Finite ?w) j)))
               (zip (map (\<lambda>b. Finite (if a = b then 0 else 1)) [0 ..< ?n])
                    [0 ..< length (map (\<lambda>b. Finite (if a = b then 0 else 1)) [0 ..< ?n])])
               (Finite 0)
             = Finite ((of_nat ?n - 1) / of_nat ?n)" if "a < ?n" for a
  proof -
    let ?xs = "map (\<lambda>b. if a = b then 0 else (1::rat)) [0 ..< ?n]"
    have m: "map (\<lambda>b. Finite (if a = b then 0 else 1)) [0 ..< ?n] = map Finite ?xs"
      by simp
    have l: "length ?xs = ?n" by simp
    have "(\<Sum>j<?n. ?xs ! j * ?w ! j) = (\<Sum>j<?n. (if a = j then 0 else 1) * (1 / of_nat ?n))"
      by (rule sum.cong) simp_all
    also have "\<dots> = (of_nat ?n - 1) * (1 / of_nat ?n)"
      by (rule sum_off_diagonal[OF that])
    finally have s: "(\<Sum>j<?n. ?xs ! j * ?w ! j) = (of_nat ?n - 1) / of_nat ?n" by simp
    have "fold (\<lambda>(val, j) sum. js_add sum (js_mul val (num_at (map Finite ?w) j)))
            (zip (map Finite ?xs) [0 ..< length ?xs]) (Finite 0)
          = Finite (0 + (\<Sum>j<length ?xs. ?xs ! j * ?w ! j))"
      by (rule fold_weighted) simp
    then show ?thesis unfolding m l using s l by simp
  qed
  have ws: "map (\<lambda>row. fold (\<lambda>(val, j) sum. js_add sum (js_mul val (num_at (map Finite ?w) j)))
                          (zip row [0 ..< length row]) (Finite 0))
              (map (\<lambda>a. map (\<lambda>b. Finite (if a = b then 0 else 1)) [0 ..< ?n]) [0 ..< ?n])
            = map Finite (replicate ?n ((of_nat ?n - 1) / of_nat ?n))"
  proof (rule nth_equalityI)
    show "length (map (\<lambda>row. fold (\<lambda>(val, j) sum. js_add sum (js_mul val (num_at (map Finite ?w) j)))
                          (zip row [0 ..< length row]) (Finite 0))
              (map (\<lambda>a. map (\<lambda>b. Finite (if a = b then 0 else 1)) [0 ..< ?n]) [0 ..< ?n]))
          = length (map Finite (replicate ?n ((of_nat ?n - 1) / of_nat ?n)))"
      by simp
  next
    fix a
    assume "a < length (map (\<lambda>row. fold (\<lambda>(val, j) sum. js_add sum (js_mul val (num_at (map Finite ?w) j)))
                          (zip row [0 ..< length row]) (Finite 0))
              (map (\<lambda>a. map (\<lambda>b. Finite (if a = b then 0 else 1)) [0 ..< ?n]) [0 ..< ?n]))"
    then have a: "a < ?n" by simp
    show "map (\<lambda>row. fold (\<lambda>(val, j) sum. js_add sum (js_mul val (num_at (map Finite ?w) j)))
                          (zip row [0 ..< length row]) (Finite 0))
              (map (\<lambda>a. map (\<lambda>b. Finite (if a = b then 0 else 1)) [0 ..< ?n]) [0 ..< ?n]) ! a
          = map Finite (replicate ?n ((of_nat ?n - 1) / of_nat ?n)) ! a"
      using a row[OF a] by simp
  qed
  have lam: "fold (\<lambda>(val, i) sum. js_add sum (js_div val (num_at (map Finite ?w) i)))
               (zip (map Finite (replicate ?n ((of_nat ?n - 1) / of_nat ?n)))
                    [0 ..< length (map Finite (replicate ?n ((of_nat ?n - 1) / of_nat ?n)))])
               (Finite 0)
             = Finite (of_nat ?n * (of_nat ?n - 1))"
  proof -
    let ?xs = "replicate ?n ((of_nat ?n - 1) / of_nat ?n :: rat)"
    have "fold (\<lambda>(val, i) sum. js_add sum (js_div val (num_at (map Finite ?w) i)))
            (zip (map Finite ?xs) [0 ..< length ?xs]) (Finite 0)
          = Finite (0 + (\<Sum>j<length ?xs. ?xs ! j / ?w ! j))"
      by (rule fold_divided) (use n0 in simp_all)
    moreover have "(\<Sum>j<length ?xs. ?xs ! j / ?w ! j) = (\<Sum>j<?n. of_nat ?n - 1)"
      by (rule sum.cong) (use n0 in simp_all)
    ultimately show ?thesis by simp
  qed
  have "calculateConsistencyRatio (generatePairwiseComparisons cs) cs
        = js_div (js_div (js_sub (js_div (Finite (of_nat ?n * (of_nat ?n - 1))) (Finite (of_nat ?n)))
                                 (Finite (of_nat ?n)))
                         (js_sub (Finite (of_nat ?n)) (Finite 1)))
                 (num_at randomIndex (min ?n (length randomIndex - 1)))"
    unfolding calculateConsistencyRatio_def Let_def w ratio_matrix[OF assms(1)] ws lam
    by (rule refl)
  also have "length randomIndex - 1 = 9" by (simp add: randomIndex_def)
  finally show ?thesis
    using assms(3,4) n0 n1 by (simp add: js_sub_def field_simps)
qed

text \<open>
  C1. Criteria with pairwise distinct ids, at least two of them, every pair
  compared with value 1: calculateWeightsFromPairwise returns the weight
  1/n for each, as the claim says. calculateConsistencyRatio does not return
  0: its matrix is filled from the comparisons only and its diagonal stays
  0, which gives lambdaMax = n - 1 and the ratio -1 / ((n - 1) r), with r
  the entry of the random-index table that is used. For two criteria this
  is -50/29.
\<close>

theorem equal_importance_weights_and_ratio:
  assumes "distinct (map cid cs)" and "2 \<le> length cs"
  shows "calculateWeightsFromPairwise (generatePairwiseComparisons cs) cs
           = replicate (length cs) (Finite (1 / of_nat (length cs)))
       \<and> (\<exists>r. 0 < r \<and> num_at randomIndex (min (length cs) 9) = Finite r
              \<and> calculateConsistencyRatio (generatePairwiseComparisons cs) cs
                  = Finite (- 1 / ((of_nat (length cs) - 1) * r)))
       \<and> calculateConsistencyRatio (generatePairwiseComparisons cs) cs \<noteq> Finite 0"
proof -
  have pos: "0 < length cs" using assms(2) by linarith
  have "2 \<le> min (length cs) 9" "min (length cs) 9 \<le> 9" using assms(2) by simp_all
  from randomIndex_positive[OF this] obtain r
    where r: "0 < r" "num_at randomIndex (min (length cs) 9) = Finite r"
    by blast
  have v: "calculateConsistencyRatio (generatePairwiseComparisons cs) cs
             = Finite (- 1 / ((of_nat (length cs) - 1) * r))"
    by (rule ratio_value[OF assms r(2) r(1)])
  have "length cs \<noteq> 1" using assms(2) by linarith
  then have "(of_nat (length cs) :: rat) - 1 \<noteq> 0" by simp
  then have "- 1 / ((of_nat (length cs) - 1) * r) \<noteq> 0" using r(1) by simp
  then show ?thesis using uniform_weights[OF assms(1) pos] v r by auto
qed

theorem equal_importance_weights_and_ratio_witness:
  "distinct (map cid [sample_criterion ''a'', sample_criterion ''b''])
   \<and> generatePairwiseComparisons [sample_criterion ''a'', sample_criterion ''b'']
       = [\<lparr>criterion1 = ''a'', criterion2 = ''b'', cvalue = Finite 1\<rparr>]
   \<and> calculateWeightsFromPairwise
         [\<lparr>criterion1 = ''a'', criterion2 = ''b'', cvalue = Finite 1\<rparr>]
         [sample_criterion ''a'', sample_criterion ''b'']
       = [Finite (1 / 2), Finite (1 / 2)]
   \<and> calculateConsistencyRatio
         [\<lparr>criterion1 = ''a'', criterion2 = ''b'', cvalue = Finite 1\<rparr>]
         [sample_criterion ''a'', sample_criterion ''b'']
       = Finite (- 50 / 29)"
proof -
  have d: "distinct (map cid [sample_criterion ''a'', sample_criterion ''b''])"
    by (simp add: sample_criterion_def)
  have l: "2 \<le> length [sample_criterion ''a'', sample_criterion ''b'']" by simp
  have g: "generatePairwiseComparisons [sample_criterion ''a'', sample_criterion ''b'']
             = [\<lparr>criterion1 = ''a'', criterion2 = ''b'', cvalue = Finite 1\<rparr>]"
    by (simp add: generatePairwiseComparisons_def sample_criterion_def)
  have r: "num_at randomIndex (min (length [sample_criterion ''a'', sample_criterion ''b'']) 9)
             = Finite (29 / 50)"
    by (simp add: randomIndex_def num_at_def)
  from equal_importance_weights_and_ratio[OF d l] obtain q
    where w: "calculateWeightsFromPairwise
                (generatePairwiseComparisons [sample_criterion ''a'', sample_criterion ''b''])
                [sample_criterion ''a'', sample_criterion ''b'']
              = replicate (length [sample_criterion ''a'', sample_criterion ''b''])
                  (Finite (1 / of_nat (length [sample_criterion ''a'', sample_criterion ''b''])))"
      and q: "num_at randomIndex (min (length [sample_criterion ''a'', sample_criterion ''b'']) 9)
              = Finite q"
      and v: "calculateConsistencyRatio
                (generatePairwiseComparisons [sample_criterion ''a'', sample_criterion ''b''])
                [sample_criterion ''a'', sample_criterion ''b'']
              = Finite (- 1 / ((of_nat (length [sample_criterion ''a'', sample_criterion ''b'']) - 1)
                               * q))"
    by blast
  have qv: "q = 29 / 50" using q r by simp
  show ?thesis using d w v[unfolded qv] unfolding g by (simp add: numeral_2_eq_2)
qed

section \<open>Properties of the validator\<close>




lemma duplicate_ids_high:
  "e \<in> set (duplicate_ids patterns label data) \<Longrightarrow> severity e = high \<and> etype e = error"
  by (auto simp: duplicate_ids_def Let_def split: option.splits)

lemma duplicate_ids_three_rows:
  "map e_rowIndex (duplicate_client_ids (id_rows [''A'', ''A'', ''A'']))
     = [Some 0, Some 1, Some 2, Some 0, Some 1, Some 2]
   \<and> length (getRowErrors (duplicate_client_ids (id_rows [''A'', ''A'', ''A''])) 0) = 2
   \<and> map e_rowIndex
         (duplicate_task_ids
            [[(''taskid'', JString ''A'')], [(''taskid'', JString ''A'')],
             [(''taskid'', JString ''A'')]])
       = [Some 0, Some 1, Some 2, Some 0, Some 1, Some 2]"
  by code_simp

lemma duplicate_ids_two_rows:
  "map e_rowIndex (duplicate_client_ids (id_rows [''A'', ''B'', ''A''])) = [Some 0, Some 2]"
  by code_simp

text \<open>
  C3. Three rows that carry the same id: the list of duplicates holds the
  value once for each occurrence after the first, that is twice, and every
  entry of it reports all three rows. The check emits six errors, two for
  each row, where the claim has one for each row. (With two occurrences it
  emits one for each of the two rows.) Whatever the rows, every error that
  is emitted is of type error and of severity high.
\<close>

theorem duplicate_ids_three_occurrences:
  "map e_rowIndex (duplicate_client_ids (id_rows [''A'', ''A'', ''A'']))
     = [Some 0, Some 1, Some 2, Some 0, Some 1, Some 2]
   \<and> length (getRowErrors (duplicate_client_ids (id_rows [''A'', ''A'', ''A''])) 0) = 2
   \<and> map e_rowIndex
         (duplicate_task_ids
            [[(''taskid'', JString ''A'')], [(''taskid'', JString ''A'')],
             [(''taskid'', JString ''A'')]])
       = [Some 0, Some 1, Some 2, Some 0, Some 1, Some 2]
   \<and> map e_rowIndex (duplicate_client_ids (id_rows [''A'', ''B'', ''A''])) = [Some 0, Some 2]
   \<and> list_all (\<lambda>e. severity e = high \<and> etype e = error) (duplicate_client_ids data)
   \<and> list_all (\<lambda>e. severity e = high \<and> etype e = error) (duplicate_task_ids data)"
  using duplicate_ids_three_rows duplicate_ids_two_rows
    duplicate_ids_high[of _ "[''clientid'', ''client_id'', ''id'']" "''Duplicate ClientID: ''" data]
    duplicate_ids_high[of _ "[''taskid'', ''task_id'', ''id'']" "''Duplicate TaskID: ''" data]
  by (simp add: list_all_iff duplicate_client_ids_def duplicate_task_ids_def)

section \<open>Properties of the query engine\<close>

lemma parse_duration_more_than:
  "parseNaturalLanguageQuery ''duration more than 5'' = (''AND'', [])"
  by code_simp

lemma parse_duration_greater_sign:
  "parseNaturalLanguageQuery ''duration > 5''
     = (''AND'', [\<lparr>c_column = ''duration'', c_operator = OpGt, c_value = JNumber (Finite 5)\<rparr>])"
  by code_simp

lemma search_more_than_three_rows:
  "executeNaturalLanguageSearch jsonParse duration_rows ''duration more than 5''
     = Inr \<lparr>matchedRows = [0, 1, 2], query = ''duration more than 5'',
            explanation = ''Found 3 rows matching: duration more than 5''\<rparr>"
  unfolding executeNaturalLanguageSearch_def parse_duration_more_than by code_simp

lemma search_greater_sign_three_rows:
  "executeNaturalLanguageSearch jsonParse duration_rows ''duration > 5''
     = Inr \<lparr>matchedRows = [1, 2], query = ''duration > 5'',
            explanation = ''Found 2 rows matching: duration > 5''\<rparr>"
  unfolding executeNaturalLanguageSearch_def parse_duration_greater_sign by code_simp

lemma search_rows_no_conditions:
  "search_rows jsonParse [] (zip data [k ..< k + length data]) matched
     = Inr (matched @ [k ..< k + length data])"
proof (induction data arbitrary: k matched)
  case Nil
  then show ?case by simp
next
  case (Cons r data)
  have "k < k + length (r # data)" by simp
  then have "[k ..< k + length (r # data)] = k # [Suc k ..< k + length (r # data)]"
    by (rule upt_conv_Cons)
  then have "[k ..< k + length (r # data)] = k # [Suc k ..< Suc k + length data]"
    by simp
  then show ?case using Cons.IH[of "Suc k" "matched @ [k]"] by simp
qed

lemma search_without_conditions:
  assumes "snd (parseNaturalLanguageQuery q) = []"
  shows "map_sum id matchedRows (executeNaturalLanguageSearch jsonParse data q)
         = Inr [0 ..< length data]"
  using assms search_rows_no_conditions[of jsonParse data 0 "[]"]
  by (simp add: executeNaturalLanguageSearch_def with_index_def)

text \<open>
  C2. The query \<open>duration more than 5\<close> yields no condition at all: in the
  duration pattern the digits must follow \<open>more than\<close> at once, and the blank
  before \<open>5\<close> makes the pattern fail. With no condition every row matches:
  the search over the three rows returns the indices 0, 1 and 2, and over
  any rows it returns all their indices. The query \<open>duration > 5\<close>, whose
  pattern allows blanks before the digits, does return 1 and 2, the string
  \<open>10\<close> being read as the number 10.
\<close>

theorem search_duration_more_than:
  "snd (parseNaturalLanguageQuery ''duration more than 5'') = []
   \<and> executeNaturalLanguageSearch jsonParse duration_rows ''duration more than 5''
       = Inr \<lparr>matchedRows = [0, 1, 2], query = ''duration more than 5'',
              explanation = ''Found 3 rows matching: duration more than 5''\<rparr>
   \<and> map_sum id matchedRows
         (executeNaturalLanguageSearch jsonParse data ''duration more than 5'')
       = Inr [0 ..< length data]
   \<and> executeNaturalLanguageSearch jsonParse duration_rows ''duration > 5''
       = Inr \<lparr>matchedRows = [1, 2], query = ''duration > 5'',
              explanation = ''Found 2 rows matching: duration > 5''\<rparr>"
  using parse_duration_more_than search_more_than_three_rows search_greater_sign_three_rows
    search_without_conditions[of "''duration more than 5''" jsonParse data]
  by simp

section \<open>Properties of the rule converter\<close>

lemma array_includes_string: "array_includes xs (JString s) = (JString s \<in> set xs)"
proof -
  have "strict_eq x (JString s) = (x = JString s)" for x
    by (cases x) simp_all
  then show ?thesis by (auto simp: array_includes_def list_ex_iff)
qed

lemma validate_coRun_missing_task:
  assumes "rtype rule = coRun" and "parameters rule = CoRunParams ts d"
    and "JString i \<in> set ts" and "JString i \<notin> set (existing_of (tasks data) ''taskid'')"
  shows "canApply (validation (validateRuleAgainstData rule data)) = False"
proof -
  have "JString i \<in> set (filter (\<lambda>taskId. \<not> array_includes
          (existing_of (tasks data) ''taskid'') taskId) ts)"
    using assms(3,4) by (simp add: array_includes_string)
  then have "length (filter (\<lambda>taskId. \<not> array_includes
          (existing_of (tasks data) ''taskid'') taskId) ts) > 0"
    by (metis length_pos_if_in_set)
  then show ?thesis using assms(1,2) by (simp add: validateRuleAgainstData_def Let_def)
qed

lemma parse_upper_ids:
  "parseNaturalLanguageRule run_together (task_rows [''T1'', ''T2'']) = Inr None"
  by code_simp

lemma parse_lower_ids:
  "parseNaturalLanguageRule run_together (task_rows [''t1'', ''t2''])
     = Inr (Some \<lparr>rtype = coRun, r_confidence = 7 / 10,
                   parameters = CoRunParams [JString ''t1'', JString ''t2'']
                                  ''Tasks t1, t2 must run together'',
                   validation = \<lparr>canApply = True, v_reason = ''Valid co-run rule'',
                                 suggestions = []\<rparr>\<rparr>)"
  by code_simp

lemma revalidate_without_T2:
  "validation
     (validateRuleAgainstData
        \<lparr>rtype = coRun, r_confidence = 7 / 10,
         parameters = CoRunParams [JString ''T1'', JString ''T2'']
                        ''Tasks T1, T2 must run together'',
         validation = \<lparr>canApply = True, v_reason = ''Valid co-run rule'',
                       suggestions = []\<rparr>\<rparr>
        (task_rows [''T1'']))
     = \<lparr>canApply = False, v_reason = ''Tasks not found: T2'', suggestions = []\<rparr>"
  by code_simp

lemma nl_parsePhaseRange_json_text:
  "nl_parsePhaseRange ''[1,2,3]'' = [Finite 1, Finite 2, Finite 3]"
  by code_simp

text \<open>
  C4. The converter lower-cases the sentence before anything else, and then
  looks for the words of the sentence among the task ids as they are. With
  the ids \<open>T1\<close> and \<open>T2\<close> the words \<open>t1\<close> and \<open>t2\<close> are no ids, fewer
  than two tasks are found, no other family matches, and the result is null
  where the claim has a coRun rule. With the ids \<open>t1\<close> and \<open>t2\<close> the rule
  is found, and re-validation against data without T2 does set canApply to
  false.
\<close>

theorem parse_tasks_run_together:
  "parseNaturalLanguageRule run_together (task_rows [''T1'', ''T2'']) = Inr None
   \<and> parseNaturalLanguageRule run_together (task_rows [''t1'', ''t2''])
       = Inr (Some \<lparr>rtype = coRun, r_confidence = 7 / 10,
                     parameters = CoRunParams [JString ''t1'', JString ''t2'']
                                    ''Tasks t1, t2 must run together'',
                     validation = \<lparr>canApply = True, v_reason = ''Valid co-run rule'',
                                   suggestions = []\<rparr>\<rparr>)
   \<and> validation
         (validateRuleAgainstData
            \<lparr>rtype = coRun, r_confidence = 7 / 10,
             parameters = CoRunParams [JString ''T1'', JString ''T2'']
                            ''Tasks T1, T2 must run together'',
             validation = \<lparr>canApply = True, v_reason = ''Valid co-run rule'',
                           suggestions = []\<rparr>\<rparr>
            (task_rows [''T1'']))
       = \<lparr>canApply = False, v_reason = ''Tasks not found: T2'', suggestions = []\<rparr>"
  using parse_upper_ids parse_lower_ids revalidate_without_T2 by simp

section \<open>Properties of the suggestion rules and of the search: exceptions\<close>

lemma skill_rule_numeric_role:
  "generateAIValidationSuggestions
     [[(''role'', JNumber (Finite 5)), (''skills'', JString '''')]] entityKind = Inl TypeError"
  by code_simp

lemma duration_rule_numeric_title:
  "generateAIValidationSuggestions
     [[(''taskname'', JNumber (Finite 42)), (''duration'', JString '''')]] entityKind
     = Inl TypeError"
  by code_simp

lemma search_phase_in_text_cell:
  "executeNaturalLanguageSearch (jsonParse(''1-3'' := None))
     [[(''preferredphases'', JString ''1-3'')]] ''phase 2'' = Inl TypeError"
  by code_simp

text \<open>
  C9. Two of the three functions throw on rows of scalars. A row whose role
  is the number 5 and whose skills are empty makes the skill rule call
  \<^verbatim>\<open>toLowerCase\<close> on a number, and generateAIValidationSuggestions throws a
  TypeError; so does a numeric task name with an empty duration in the
  duration rule. The query \<open>phase 2\<close> over a row whose phases are the text \<open>1-3\<close>
  makes matchesCondition call \<^verbatim>\<open>toLowerCase\<close> on the number 2, in the
  branch taken when the cell is not JSON, and executeNaturalLanguageSearch
  throws (\<open>jsonParse\<close> is any parser that rejects \<open>1-3\<close>).
\<close>

theorem core_functions_can_throw:
  "generateAIValidationSuggestions
     [[(''role'', JNumber (Finite 5)), (''skills'', JString '''')]] entityKind = Inl TypeError
   \<and> generateAIValidationSuggestions
         [[(''taskname'', JNumber (Finite 42)), (''duration'', JString '''')]] entityKind
       = Inl TypeError
   \<and> executeNaturalLanguageSearch (jsonParse(''1-3'' := None))
         [[(''preferredphases'', JString ''1-3'')]] ''phase 2'' = Inl TypeError"
  using skill_rule_numeric_role duration_rule_numeric_title search_phase_in_text_cell
  by simp

end
